theory Spec2Isabelle
  imports Complex_Main "HOL-Library.AList" "HOL-Library.Char_ord" "HOL-Library.List_Lexorder"
    "HOL-Library.Sublist"
begin

chapter \<open>The aptitude questionnaire: selector, aggregator, calibration analyzer, weight applier\<close>

text \<open>
  The embedding follows three source units: the adaptive selector of the client
  (\<^verbatim>\<open>utils.ts\<close>), the response aggregator of the client (the \<^verbatim>\<open>useMemo\<close> blocks
  \<^verbatim>\<open>categoryScore\<close>, \<^verbatim>\<open>aptitudeScores\<close>, \<^verbatim>\<open>tagScores\<close>, \<^verbatim>\<open>cooccurrenceData\<close> of
  \<^verbatim>\<open>App\<close>), and the calibration tool (\<^verbatim>\<open>ScoreAnalyzer\<close>, \<^verbatim>\<open>WeightApplier\<close>).

  Numbers are IEEE doubles in the source. They are modelled as exact reals; rounding,
  overflow and infinities are outside the model. The one non-real value that the
  aggregator can produce from well-typed input, \<^verbatim>\<open>NaN\<close> (arithmetic on \<^verbatim>\<open>undefined\<close>),
  is modelled explicitly. Strings are compared by code unit, as \<^verbatim>\<open>===\<close> and \<^verbatim>\<open><\<close> do.
  Presentation-only fields (prompt, label, title, difficulty) are left out of the records.
\<close>

section \<open>Definitions\<close>

subsection \<open>JavaScript numbers and the built-in sort\<close>

datatype jsnum = Num real | NaN

fun jadd :: "jsnum \<Rightarrow> jsnum \<Rightarrow> jsnum" where
  "jadd (Num a) (Num b) = Num (a + b)"
| "jadd _ _ = NaN"

fun jsub :: "jsnum \<Rightarrow> jsnum \<Rightarrow> jsnum" where
  "jsub (Num a) (Num b) = Num (a - b)"
| "jsub _ _ = NaN"

fun jmul :: "jsnum \<Rightarrow> jsnum \<Rightarrow> jsnum" where
  "jmul (Num a) (Num b) = Num (a * b)"
| "jmul _ _ = NaN"

text \<open>
  \<^verbatim>\<open>Array.prototype.sort(comparefn)\<close>: the comparison result \<^verbatim>\<open>NaN\<close> counts as \<open>+0\<close>
  (the language's SortCompare), and the sort is stable. It is modelled as a stable
  insertion sort: an element stays in front of the elements that follow it unless the
  comparator puts it strictly behind them. Every stable sort agrees with it when the
  comparator is consistent; when it is not (a \<^verbatim>\<open>NaN\<close> among the keys) the language
  leaves the order to the engine, and insertion is what engines do on short arrays.
\<close>

definition SortCompare :: "('a \<Rightarrow> 'a \<Rightarrow> jsnum) \<Rightarrow> 'a \<Rightarrow> 'a \<Rightarrow> real" where
  "SortCompare comparefn x y = (case comparefn x y of NaN \<Rightarrow> 0 | Num v \<Rightarrow> v)"

fun insort_cmp :: "('a \<Rightarrow> 'a \<Rightarrow> jsnum) \<Rightarrow> 'a \<Rightarrow> 'a list \<Rightarrow> 'a list" where
  "insort_cmp comparefn x [] = [x]"
| "insort_cmp comparefn x (y # ys) =
     (if SortCompare comparefn x y \<le> 0 then x # y # ys
      else y # insort_cmp comparefn x ys)"

fun js_sort :: "('a \<Rightarrow> 'a \<Rightarrow> jsnum) \<Rightarrow> 'a list \<Rightarrow> 'a list" where
  "js_sort comparefn [] = []"
| "js_sort comparefn (x # xs) = insort_cmp comparefn x (js_sort comparefn xs)"

subsection \<open>The question bank of the client\<close>

record RelatedCategory =
  rc_axis :: string
  rc_category :: string
  rc_weight :: real

record Tag =
  tag_name :: string
  tag_weight :: real

datatype Polarity = positive | reverse

record LikertQuestion =
  lq_id :: string
  lq_axis :: string
  primaryCategory :: string
  polarity :: Polarity
  lq_required :: bool
  relatedCategories :: "RelatedCategory list option"
  lq_tags :: "Tag list option"

subsection \<open>Adaptive selector\<close>

record AxisStats =
  stat_sum :: real
  stat_count :: real

text \<open>\<^verbatim>\<open>computeInformationGain(question, stats)\<close>; \<open>stats\<close> is a \<^verbatim>\<open>Map\<close> from axis to its running sum and count.\<close>

definition computeInformationGain :: "LikertQuestion \<Rightarrow> (string \<rightharpoonup> AxisStats) \<Rightarrow> real" where
  "computeInformationGain question stats =
     (case stats (lq_axis question) of
        None \<Rightarrow> 1
      | Some axisState \<Rightarrow>
          if stat_count axisState = 0 then 1
          else
            (let average = stat_sum axisState / stat_count axisState;
                 midPoint = 4;
                 gap = \<bar>midPoint - average\<bar>;
                 relatedWeight =
                   foldl (\<lambda>acc current. acc + rc_weight current) 0
                     (case relatedCategories question of None \<Rightarrow> [] | Some rs \<Rightarrow> rs)
             in gap * (1 + relatedWeight)))"

text \<open>
  \<^verbatim>\<open>pickNextLikertQuestion(questions, answers, stats, requiredOnly)\<close>. The answers
  object is given by its entries (key and answered value); only its keys are read here.
  The result \<^verbatim>\<open>undefined\<close> is \<open>None\<close>.
\<close>

function pickNextLikertQuestion ::
  "LikertQuestion list \<Rightarrow> (string \<times> real) list \<Rightarrow> (string \<rightharpoonup> AxisStats) \<Rightarrow> bool
     \<Rightarrow> LikertQuestion option" where
  "pickNextLikertQuestion questions answers stats requiredOnly =
     (let answered = set (map fst answers);
          candidates =
            filter (\<lambda>q. lq_id q \<notin> answered \<and> (\<not> requiredOnly \<or> lq_required q)) questions
      in if candidates = [] \<and> requiredOnly
         then pickNextLikertQuestion questions answers stats False
         else
           (case js_sort (\<lambda>a b. Num (snd b - snd a))
                   (map (\<lambda>question. (question, computeInformationGain question stats)) candidates) of
              [] \<Rightarrow> None
            | x # _ \<Rightarrow> Some (fst x)))"
  by pat_completeness auto
termination
  by (relation "measure (\<lambda>(qs, a, s, r). if r then 1 else 0)") auto

declare pickNextLikertQuestion.simps [simp del]

text \<open>The filter predicate of \<^verbatim>\<open>pickNextLikertQuestion\<close>, named for the proofs.\<close>

definition candidate :: "(string \<times> real) list \<Rightarrow> bool \<Rightarrow> LikertQuestion \<Rightarrow> bool" where
  "candidate answers requiredOnly q \<longleftrightarrow>
     lq_id q \<notin> set (map fst answers) \<and> (\<not> requiredOnly \<or> lq_required q)"

subsection \<open>Calibration analyzer: data\<close>

text \<open>
  The records of the calibration tool. Its forced-choice option and its scenario option
  are two record types of the same three fields; one record stands for both.
\<close>

record WeightedCategory =
  wc_axis :: string
  wc_category :: string
  wc_score :: real
  wc_weight :: real

record LikertItem =
  li_id :: string
  li_axis :: string
  li_primaryCategory :: string
  li_polarity :: string
  li_relatedCategories :: "RelatedCategory list"

record ItemOption =
  opt_key :: string
  opt_primary :: WeightedCategory
  opt_secondary :: "WeightedCategory list"

record ForcedChoiceItem =
  fi_id :: string
  fi_required :: bool
  fi_options :: "ItemOption list"

record ScenarioItem =
  si_id :: string
  si_required :: bool
  si_options :: "ItemOption list"

record ResponseRecord =
  respondentId :: string
  itemId :: string
  rvalue :: real
  responseTimeMs :: "real option"
  confidence :: "real option"

record ItemSummary =
  s_itemId :: string
  s_axis :: string
  s_category :: string
  s_mean :: real
  s_variance :: real
  effectiveWeight :: real
  recommendedWeight :: real
  itemTotalCorrelation :: "real option"
  averageResponseTimeMs :: "real option"
  averageConfidence :: "real option"

record LikertAnalysis =
  la_items :: "ItemSummary list"
  cronbachAlpha :: "(string \<times> real option) list"

subsection \<open>Calibration analyzer: sequence operators\<close>

text \<open>
  \<^verbatim>\<open>GroupBy(key)\<close> yields one group per key, keys in order of first occurrence, each
  group in source order; \<^verbatim>\<open>ToDictionary\<close> followed by \<^verbatim>\<open>TryGetValue\<close> is \<open>map_of\<close>
  on it. \<^verbatim>\<open>Average\<close> raises on an empty sequence; every call of the source is on a
  sequence that is not empty (a group, a \<^verbatim>\<open>DefaultIfEmpty\<close>, or behind a length test).
  \<^verbatim>\<open>DefaultIfEmpty()\<close> of an empty sequence of doubles is the one-element sequence \<open>0\<close>.
\<close>

definition GroupBy :: "('a \<Rightarrow> 'k) \<Rightarrow> 'a list \<Rightarrow> ('k \<times> 'a list) list" where
  "GroupBy key xs =
     map (\<lambda>k. (k, filter (\<lambda>x. key x = k) xs)) (rev (remdups (rev (map key xs))))"

definition Average :: "real list \<Rightarrow> real" where
  "Average xs = sum_list xs / real (length xs)"

definition DefaultIfEmpty :: "real list \<Rightarrow> real list" where
  "DefaultIfEmpty xs = (if xs = [] then [0] else xs)"

definition Clamp :: "real \<Rightarrow> real \<Rightarrow> real \<Rightarrow> real" where
  "Clamp v lo hi = (if v < lo then lo else if v > hi then hi else v)"

subsection \<open>Calibration analyzer: statistics\<close>

text \<open>
  The Pearson correlation takes a square root, so it is the one function here that does
  not evaluate by computation; the examples below stay under its sample-size guard.
\<close>

definition sampleVariance :: "real list \<Rightarrow> real \<Rightarrow> real" where
  "sampleVariance values mean =
     (if length values > 1
      then sum_list (map (\<lambda>v. (v - mean) ^ 2) values) / (real (length values) - 1)
      else 0)"

fun pearsonLoop :: "real \<Rightarrow> real \<Rightarrow> (real \<times> real) list \<Rightarrow> real \<times> real \<times> real
    \<Rightarrow> real \<times> real \<times> real" where
  "pearsonLoop mx my [] acc = acc"
| "pearsonLoop mx my ((x, y) # ps) (numerator, sumSqX, sumSqY) =
     (let dx = x - mx; dy = y - my
      in pearsonLoop mx my ps (numerator + dx * dy, sumSqX + dx * dx, sumSqY + dy * dy))"

definition PearsonCorrelation :: "real list \<Rightarrow> real list \<Rightarrow> real option" where
  "PearsonCorrelation xs ys =
     (if length xs \<noteq> length ys \<or> length xs < 2 then None
      else
        (let mx = Average xs; my = Average ys;
             (numerator, sumSqX, sumSqY) = pearsonLoop mx my (zip xs ys) (0, 0, 0);
             denominator = sqrt (sumSqX * sumSqY)
         in if denominator = 0 then None else Some (numerator / denominator)))"

definition ItemTotalCorrelation :: "real list \<Rightarrow> ResponseRecord list \<Rightarrow> string \<Rightarrow> real option" where
  "ItemTotalCorrelation itemValues allResponses item =
     (if length itemValues < 3 then None
      else
        (let byRespondent =
               map (\<lambda>(k, g). (k, map rvalue (filter (\<lambda>r. itemId r \<noteq> item) g)))
                 (GroupBy respondentId allResponses);
             filtered =
               concat (map (\<lambda>(k, g).
                   (case map_of byRespondent k of
                      None \<Rightarrow> []
                    | Some totals \<Rightarrow>
                        if totals = [] then []
                        else [(Average (map rvalue g), Average totals)]))
                 (GroupBy respondentId (filter (\<lambda>r. itemId r = item) allResponses)))
         in if length filtered < 3 then None
            else PearsonCorrelation (map fst filtered) (map snd filtered)))"

definition CronbachAlpha :: "real list \<Rightarrow> int \<Rightarrow> real option" where
  "CronbachAlpha itemVariances respondentCount =
     (let k = length itemVariances
      in if k < 2 \<or> respondentCount < 2 then None
         else
           (let totalVariance = sum_list itemVariances
            in if totalVariance = 0 then None
               else
                 (let averageVariance = totalVariance / real k
                  in if averageVariance = 0 then None
                     else Some ((real k / (real k - 1))
                            * (1 - (sum_list itemVariances / (real k * averageVariance)))))))"

text \<open>
  The two multipliers take a nullable double. Every call site passes a plain double (the
  average), so the argument always has a value.
\<close>

definition CalculateTimeMultiplier :: "real option \<Rightarrow> real" where
  "CalculateTimeMultiplier averageTimeMs =
     (case averageTimeMs of
        None \<Rightarrow> 1
      | Some t \<Rightarrow>
          if t \<le> 0 then 1
          else if t < 1500 then 85 / 100
          else if t < 2500 then 93 / 100
          else if t < 4500 then 1
          else if t < 6500 then 105 / 100
          else 11 / 10)"

definition CalculateConfidenceMultiplier :: "real option \<Rightarrow> real" where
  "CalculateConfidenceMultiplier averageConf =
     (case averageConf of
        None \<Rightarrow> 1
      | Some c \<Rightarrow>
          if c < 3 / 10 then 8 / 10
          else if c < 5 / 10 then 9 / 10
          else if c < 7 / 10 then 1
          else if c < 85 / 100 then 105 / 100
          else 11 / 10)"

subsection \<open>Calibration analyzer: the three analyses\<close>

text \<open>
  The averages of the recorded response times and confidences of a group:
  \<^verbatim>\<open>records.Where(r => r.X.HasValue).Select(r => r.X.Value).DefaultIfEmpty().Average()\<close>.
  The summary reports each average unless it is \<^verbatim>\<open>NaN\<close>, which an average of reals never
  is: the two optional fields of a summary always hold a value.
\<close>

definition averageTimeOf :: "ResponseRecord list \<Rightarrow> real" where
  "averageTimeOf records =
     Average (DefaultIfEmpty (map (\<lambda>r. the (responseTimeMs r))
                (filter (\<lambda>r. responseTimeMs r \<noteq> None) records)))"

definition averageConfidenceOf :: "ResponseRecord list \<Rightarrow> real" where
  "averageConfidenceOf records =
     Average (DefaultIfEmpty (map (\<lambda>r. the (confidence r))
                (filter (\<lambda>r. confidence r \<noteq> None) records)))"

text \<open>The body of the item loop of \<^verbatim>\<open>AnalyzeLikert\<close> for an item that has records.\<close>

definition likertSummary :: "LikertItem \<Rightarrow> ResponseRecord list \<Rightarrow> ResponseRecord list \<Rightarrow> ItemSummary" where
  "likertSummary item records responses =
     (let values = map rvalue records;
          mean = Average values;
          variance = sampleVariance values mean;
          correlation = ItemTotalCorrelation values responses (li_id item);
          recommended =
            (case correlation of Some c \<Rightarrow> Clamp (1 + c * (1 / 2)) (4 / 10) (16 / 10) | None \<Rightarrow> 1);
          averageTime = averageTimeOf records;
          averageConf = averageConfidenceOf records;
          effective = recommended * CalculateTimeMultiplier (Some averageTime)
                        * CalculateConfidenceMultiplier (Some averageConf)
      in \<lparr>s_itemId = li_id item, s_axis = li_axis item, s_category = li_primaryCategory item,
          s_mean = mean, s_variance = variance, effectiveWeight = effective,
          recommendedWeight = recommended, itemTotalCorrelation = correlation,
          averageResponseTimeMs = Some averageTime, averageConfidence = Some averageConf\<rparr>)"

definition AnalyzeLikert :: "LikertItem list \<Rightarrow> ResponseRecord list \<Rightarrow> LikertAnalysis" where
  "AnalyzeLikert likertItems responses =
     (let itemGroups =
            GroupBy itemId (filter (\<lambda>r. \<exists>l\<in>set likertItems. li_id l = itemId r) responses);
          itemSummaries =
            concat (map (\<lambda>item.
                (case map_of itemGroups (li_id item) of
                   None \<Rightarrow> []
                 | Some records \<Rightarrow> [likertSummary item records responses]))
              likertItems);
          axisGroups = GroupBy s_axis itemSummaries;
          axisAlphas =
            map (\<lambda>(axis, summaries).
                (axis, CronbachAlpha (map s_variance summaries)
                         (max 1 (int (length responses) div max (int (length summaries)) 1))))
              axisGroups
      in \<lparr>la_items = itemSummaries, cronbachAlpha = axisAlphas\<rparr>)"

text \<open>
  The body of the option loop, the same text in \<^verbatim>\<open>AnalyzeForcedChoice\<close> and in
  \<^verbatim>\<open>AnalyzeScenario\<close>, for an option that has records.
\<close>

definition optionSummary :: "string \<Rightarrow> ItemOption \<Rightarrow> ResponseRecord list \<Rightarrow> ItemSummary" where
  "optionSummary compositeId option records =
     (let values = map rvalue records;
          mean = Average values;
          variance = sampleVariance values mean;
          recommended =
            Clamp (if variance > 2 then 12 / 10 else if variance > 1 then 1
                   else if variance > 1 / 2 then 8 / 10 else 6 / 10) (5 / 10) (14 / 10);
          averageTime = averageTimeOf records;
          averageConf = averageConfidenceOf records;
          effective = recommended * CalculateTimeMultiplier (Some averageTime)
                        * CalculateConfidenceMultiplier (Some averageConf)
      in \<lparr>s_itemId = compositeId, s_axis = wc_axis (opt_primary option),
          s_category = wc_category (opt_primary option),
          s_mean = mean, s_variance = variance, effectiveWeight = effective,
          recommendedWeight = recommended, itemTotalCorrelation = None,
          averageResponseTimeMs = Some averageTime, averageConfidence = Some averageConf\<rparr>)"

definition AnalyzeForcedChoice :: "ForcedChoiceItem list \<Rightarrow> ResponseRecord list \<Rightarrow> ItemSummary list" where
  "AnalyzeForcedChoice forcedChoiceItems responses =
     (let itemGroups = GroupBy itemId (filter (\<lambda>r. CHR ''|'' \<in> set (itemId r)) responses)
      in concat (map (\<lambda>item.
           concat (map (\<lambda>option.
               (let compositeId = fi_id item @ ''|'' @ opt_key option
                in case map_of itemGroups compositeId of
                     None \<Rightarrow> []
                   | Some records \<Rightarrow> [optionSummary compositeId option records]))
             (fi_options item)))
         forcedChoiceItems))"

definition AnalyzeScenario :: "ScenarioItem list \<Rightarrow> ResponseRecord list \<Rightarrow> ItemSummary list" where
  "AnalyzeScenario scenarioItems responses =
     (let itemGroups = GroupBy itemId (filter (\<lambda>r. prefix ''SC-'' (itemId r)) responses)
      in concat (map (\<lambda>item.
           concat (map (\<lambda>option.
               (let compositeId = si_id item @ ''|'' @ opt_key option
                in case map_of itemGroups compositeId of
                     None \<Rightarrow> []
                   | Some records \<Rightarrow> [optionSummary compositeId option records]))
             (si_options item)))
         scenarioItems))"

subsection \<open>Weight applier\<close>

text \<open>
  The persisted catalog is read as a generic JSON tree (\<^verbatim>\<open>JsonNode\<close>). A JSON null is
  the null reference of the source, so \<open>JNull\<close> stands for both a null node and an absent
  property. Indexing a node that is not an object by a property name, and
  \<^verbatim>\<open>GetValue<T>\<close> on a node that is not a value of type \<open>T\<close>, raise
  \<^verbatim>\<open>InvalidOperationException\<close>; the exception leaves \<^verbatim>\<open>ApplyToFile\<close> before the file is
  written. An object is the list of its properties in order; setting a property replaces
  its value in place or appends it.
\<close>

datatype json =
  JNull | JBool bool | JNumber real | JString string | JArray "json list"
  | JObject "(string \<times> json) list"

datatype error = InvalidOperation

text \<open>\<^verbatim>\<open>node?[name]\<close>\<close>

fun getProperty :: "json \<Rightarrow> string \<Rightarrow> error + json" where
  "getProperty JNull name = Inr JNull"
| "getProperty (JObject props) name = Inr (case map_of props name of None \<Rightarrow> JNull | Some v \<Rightarrow> v)"
| "getProperty _ name = Inl InvalidOperation"

text \<open>\<^verbatim>\<open>node.GetValue<string>()\<close> and \<^verbatim>\<open>node.GetValue<double?>()\<close> on a node that is not null\<close>

fun GetValue_string :: "json \<Rightarrow> error + string" where
  "GetValue_string (JString s) = Inr s"
| "GetValue_string _ = Inl InvalidOperation"

fun GetValue_double :: "json \<Rightarrow> error + real" where
  "GetValue_double (JNumber x) = Inr x"
| "GetValue_double _ = Inl InvalidOperation"

text \<open>
  \<^verbatim>\<open>array.FirstOrDefault(node => node?[name]?.GetValue<string>() == target)\<close>, as the
  position of the node found. The predicate runs on the nodes in order and stops at the
  first match, so an exception of an earlier node wins.
\<close>

fun firstIndexWhere :: "string \<Rightarrow> string \<Rightarrow> json list \<Rightarrow> error + nat option" where
  "firstIndexWhere name target [] = Inr None"
| "firstIndexWhere name target (node # rest) =
     (case getProperty node name of
        Inl e \<Rightarrow> Inl e
      | Inr v \<Rightarrow>
          (case (if v = JNull then Inr False
                 else (case GetValue_string v of Inl e \<Rightarrow> Inl e | Inr s \<Rightarrow> Inr (s = target))) of
             Inl e \<Rightarrow> Inl e
           | Inr True \<Rightarrow> Inr (Some 0)
           | Inr False \<Rightarrow>
               (case firstIndexWhere name target rest of
                  Inl e \<Rightarrow> Inl e
                | Inr None \<Rightarrow> Inr None
                | Inr (Some i) \<Rightarrow> Inr (Some (Suc i)))))"

text \<open>\<^verbatim>\<open>s.Split(sep)\<close>: the pieces between the separators, empty pieces included.\<close>

fun Split :: "char \<Rightarrow> string \<Rightarrow> string list" where
  "Split sep [] = [[]]"
| "Split sep (c # cs) =
     (if c = sep then [] # Split sep cs
      else (case Split sep cs of [] \<Rightarrow> [[c]] | p # ps \<Rightarrow> (c # p) # ps))"

text \<open>
  The lookup of one summary in the items array, up to the \<^verbatim>\<open>primary\<close> object of the
  option it names: the position and properties of the item, its options array, the
  position and properties of the option, and the properties of \<^verbatim>\<open>primary\<close>. \<open>None\<close> is
  each \<^verbatim>\<open>continue\<close> of the loop body before the tolerance test.
\<close>

type_synonym located =
  "nat \<times> (string \<times> json) list \<times> json list \<times> nat \<times> (string \<times> json) list \<times> (string \<times> json) list"

definition locateOption :: "json list \<Rightarrow> string \<Rightarrow> error + located option" where
  "locateOption itemsArray summaryItemId =
     (let parts = Split CHR ''|'' summaryItemId
      in if length parts \<noteq> 2 then Inr None
         else
           (let itemIdPart = parts ! 0; optionKey = parts ! 1
            in case firstIndexWhere ''id'' itemIdPart itemsArray of
                 Inl e \<Rightarrow> Inl e
               | Inr None \<Rightarrow> Inr None
               | Inr (Some i) \<Rightarrow>
                   (case itemsArray ! i of
                      JObject itemNode \<Rightarrow>
                        (case map_of itemNode ''options'' of
                           Some (JArray optionsArray) \<Rightarrow>
                             (case firstIndexWhere ''key'' optionKey optionsArray of
                                Inl e \<Rightarrow> Inl e
                              | Inr None \<Rightarrow> Inr None
                              | Inr (Some j) \<Rightarrow>
                                  (case optionsArray ! j of
                                     JObject optionNode \<Rightarrow>
                                       (case map_of optionNode ''primary'' of
                                          Some (JObject primary) \<Rightarrow>
                                            Inr (Some (i, itemNode, optionsArray, j, optionNode, primary))
                                        | _ \<Rightarrow> Inr None)
                                   | _ \<Rightarrow> Inr None))
                         | _ \<Rightarrow> Inr None)
                    | _ \<Rightarrow> Inr None)))"

text \<open>\<^verbatim>\<open>primary["weight"]?.GetValue<double?>() ?? 1.0\<close>\<close>

definition currentWeightOf :: "(string \<times> json) list \<Rightarrow> error + real" where
  "currentWeightOf primary =
     (case map_of primary ''weight'' of
        None \<Rightarrow> Inr 1
      | Some JNull \<Rightarrow> Inr 1
      | Some v \<Rightarrow> GetValue_double v)"

text \<open>\<^verbatim>\<open>primary["weight"] = summary.RecommendedWeight\<close>, seen from the items array.\<close>

definition setWeight :: "json list \<Rightarrow> located \<Rightarrow> real \<Rightarrow> json list" where
  "setWeight itemsArray loc w =
     (case loc of (i, itemNode, optionsArray, j, optionNode, primary) \<Rightarrow>
        itemsArray
          [i := JObject (AList.update ''options''
                  (JArray (optionsArray
                     [j := JObject (AList.update ''primary''
                             (JObject (AList.update ''weight'' (JNumber w) primary)) optionNode)]))
                  itemNode)])"

text \<open>One turn of the loop over the summaries; the state is the items array and the counter.\<close>

definition applySummary :: "real \<Rightarrow> json list \<times> nat \<Rightarrow> ItemSummary \<Rightarrow> error + json list \<times> nat" where
  "applySummary tolerance state summary =
     (case state of (itemsArray, updated) \<Rightarrow>
        (case locateOption itemsArray (s_itemId summary) of
           Inl e \<Rightarrow> Inl e
         | Inr None \<Rightarrow> Inr (itemsArray, updated)
         | Inr (Some loc) \<Rightarrow>
             (case currentWeightOf (snd (snd (snd (snd (snd loc))))) of
                Inl e \<Rightarrow> Inl e
              | Inr currentWeight \<Rightarrow>
                  if \<bar>currentWeight - recommendedWeight summary\<bar> < tolerance
                  then Inr (itemsArray, updated)
                  else Inr (setWeight itemsArray loc (recommendedWeight summary), updated + 1))))"

fun applySummaries :: "real \<Rightarrow> json list \<times> nat \<Rightarrow> ItemSummary list \<Rightarrow> error + json list \<times> nat" where
  "applySummaries tolerance state [] = Inr state"
| "applySummaries tolerance state (summary # rest) =
     (case applySummary tolerance state summary of
        Inl e \<Rightarrow> Inl e
      | Inr state' \<Rightarrow> applySummaries tolerance state' rest)"

text \<open>
  \<^verbatim>\<open>ApplyToFile(path, summaries, tolerance)\<close>. The file is given by its parsed content,
  \<open>None\<close> when it does not exist; the result is the content of the file after the call
  and the number of updates. A file that is missing or has no \<^verbatim>\<open>items\<close> array is left
  as it is.
\<close>

definition ApplyToFile :: "json option \<Rightarrow> ItemSummary list \<Rightarrow> real \<Rightarrow> error + json option \<times> nat" where
  "ApplyToFile file summaries tolerance =
     (case file of
        None \<Rightarrow> Inr (None, 0)
      | Some rootNode \<Rightarrow>
          (case getProperty rootNode ''items'' of
             Inl e \<Rightarrow> Inl e
           | Inr (JArray itemsArray) \<Rightarrow>
               (case applySummaries tolerance (itemsArray, 0) summaries of
                  Inl e \<Rightarrow> Inl e
                | Inr (itemsArray', updated) \<Rightarrow>
                    Inr (Some (case rootNode of
                                 JObject props \<Rightarrow>
                                   JObject (AList.update ''items'' (JArray itemsArray') props)
                               | _ \<Rightarrow> rootNode),
                         updated))
           | Inr _ \<Rightarrow> Inr (Some rootNode, 0)))"

subsection \<open>Response aggregator: data\<close>

text \<open>
  The forced-choice option and the scenario option of the client have the same fields;
  one record stands for both. The answer objects are given by their entries, in the order
  \<^verbatim>\<open>Object.entries\<close> lists them; the response time they also carry is not read here.
\<close>

record ChoiceOption =
  co_key :: string
  co_primary :: WeightedCategory
  co_secondary :: "WeightedCategory list option"
  co_tags :: "Tag list option"

record ForcedChoiceQuestion =
  fq_id :: string
  fq_required :: bool
  fq_options :: "ChoiceOption list"

record ScenarioQuestion =
  sq_id :: string
  sq_required :: bool
  sq_options :: "ChoiceOption list"

record QuestionBank =
  likert :: "LikertQuestion list"
  forcedChoice :: "ForcedChoiceQuestion list"
  scenario :: "ScenarioQuestion list"

record ForcedAnswerState =
  optionKey :: string
  fa_confidence :: real

record ScenarioAnswerState =
  rankedOptions :: "string list"

subsection \<open>Response aggregator: category and aptitude scores\<close>

text \<open>
  The score map is a \<^verbatim>\<open>Map\<close>, which keeps its keys in insertion order:
  \<^verbatim>\<open>scores.set(key, (scores.get(key) ?? 0) + value)\<close>.
\<close>

definition addScore :: "string \<Rightarrow> jsnum \<Rightarrow> (string \<times> jsnum) list \<Rightarrow> (string \<times> jsnum) list" where
  "addScore key v scores =
     AList.update key (jadd (case map_of scores key of None \<Rightarrow> Num 0 | Some old \<Rightarrow> old) v) scores"

text \<open>
  \<^verbatim>\<open>weights[index]\<close> with \<^verbatim>\<open>weights = [1.0, 0.5, 0.25]\<close>. Reading an array past its end
  gives \<^verbatim>\<open>undefined\<close>, and the only use of the value is as a factor of a product, which
  is then \<^verbatim>\<open>NaN\<close>.
\<close>

definition rankWeightAt :: "nat \<Rightarrow> jsnum" where
  "rankWeightAt index =
     (let weights = [1, 1 / 2, 1 / 4]
      in if index < length weights then Num (weights ! index) else NaN)"

text \<open>
  \<^verbatim>\<open>categoryScore\<close> and \<^verbatim>\<open>aptitudeScores\<close> are the same text twice; the second guards
  every \<^verbatim>\<open>addScore\<close> by a test on the axis of the contribution. The steps below take
  that test as the parameter \<open>axisOk\<close>.
\<close>

definition isAptitudeAxis :: "string \<Rightarrow> bool" where
  "isAptitudeAxis axis \<longleftrightarrow> axis = ''activity'' \<or> axis = ''learning_style''"

definition likertStep ::
  "(string \<Rightarrow> bool) \<Rightarrow> QuestionBank \<Rightarrow> (string \<times> jsnum) list \<Rightarrow> string \<times> real
     \<Rightarrow> (string \<times> jsnum) list" where
  "likertStep axisOk bank scores entry =
     (case entry of (qid, answerValue) \<Rightarrow>
        (case find (\<lambda>q. lq_id q = qid) (likert bank) of
           None \<Rightarrow> scores
         | Some question \<Rightarrow>
             (let normalized = (if polarity question = reverse then 8 - answerValue else answerValue);
                  scores1 = (if axisOk (lq_axis question)
                             then addScore (primaryCategory question) (Num normalized) scores
                             else scores)
              in foldl (\<lambda>sc rel. if axisOk (rc_axis rel)
                                   then addScore (rc_category rel) (Num (normalized * rc_weight rel)) sc
                                   else sc)
                   scores1
                   (case relatedCategories question of None \<Rightarrow> [] | Some rs \<Rightarrow> rs))))"

definition forcedStep ::
  "(string \<Rightarrow> bool) \<Rightarrow> QuestionBank \<Rightarrow> (string \<times> jsnum) list \<Rightarrow> string \<times> ForcedAnswerState
     \<Rightarrow> (string \<times> jsnum) list" where
  "forcedStep axisOk bank scores entry =
     (case entry of (key, answer) \<Rightarrow>
        if optionKey answer = ''SKIP'' then scores
        else
          (let questionId = (case Split CHR ''|'' key of [] \<Rightarrow> [] | p # _ \<Rightarrow> p)
           in case find (\<lambda>q. fq_id q = questionId) (forcedChoice bank) of
                None \<Rightarrow> scores
              | Some question \<Rightarrow>
                  (case find (\<lambda>opt. co_key opt = optionKey answer) (fq_options question) of
                     None \<Rightarrow> scores
                   | Some opt \<Rightarrow>
                       (let scores1 =
                              (if axisOk (wc_axis (co_primary opt))
                               then addScore (wc_category (co_primary opt))
                                      (Num (wc_score (co_primary opt) * wc_weight (co_primary opt)
                                            * fa_confidence answer)) scores
                               else scores)
                        in foldl (\<lambda>sc sec. if axisOk (wc_axis sec)
                                    then addScore (wc_category sec)
                                           (Num (wc_score sec * wc_weight sec * fa_confidence answer)) sc
                                    else sc)
                             scores1
                             (case co_secondary opt of None \<Rightarrow> [] | Some ss \<Rightarrow> ss)))))"

definition scenarioStep ::
  "(string \<Rightarrow> bool) \<Rightarrow> QuestionBank \<Rightarrow> (string \<times> jsnum) list \<Rightarrow> string \<times> ScenarioAnswerState
     \<Rightarrow> (string \<times> jsnum) list" where
  "scenarioStep axisOk bank scores entry =
     (case entry of (qid, answer) \<Rightarrow>
        (case find (\<lambda>q. sq_id q = qid) (scenario bank) of
           None \<Rightarrow> scores
         | Some question \<Rightarrow>
             foldl (\<lambda>sc ranked.
                 (case ranked of (index, key) \<Rightarrow>
                    (case find (\<lambda>opt. co_key opt = key) (sq_options question) of
                       None \<Rightarrow> sc
                     | Some opt \<Rightarrow>
                         (let rankWeight = rankWeightAt index;
                              sc1 =
                                (if axisOk (wc_axis (co_primary opt))
                                 then addScore (wc_category (co_primary opt))
                                        (jmul (Num (wc_score (co_primary opt)
                                                    * wc_weight (co_primary opt))) rankWeight) sc
                                 else sc)
                          in foldl (\<lambda>sc' sec. if axisOk (wc_axis sec)
                                      then addScore (wc_category sec)
                                             (jmul (Num (wc_score sec * wc_weight sec)) rankWeight) sc'
                                      else sc')
                               sc1
                               (case co_secondary opt of None \<Rightarrow> [] | Some ss \<Rightarrow> ss)))))
               scores
               (List.enumerate 0 (rankedOptions answer))))"

definition accumulate ::
  "(string \<Rightarrow> bool) \<Rightarrow> QuestionBank option \<Rightarrow> (string \<times> real) list
     \<Rightarrow> (string \<times> ForcedAnswerState) list \<Rightarrow> (string \<times> ScenarioAnswerState) list
     \<Rightarrow> (string \<times> jsnum) list" where
  "accumulate axisOk questionBank likertAnswers forcedAnswers scenarioAnswers =
     (case questionBank of
        None \<Rightarrow> []
      | Some bank \<Rightarrow>
          foldl (scenarioStep axisOk bank)
            (foldl (forcedStep axisOk bank)
               (foldl (likertStep axisOk bank) [] likertAnswers)
               forcedAnswers)
            scenarioAnswers)"

definition categoryScore ::
  "QuestionBank option \<Rightarrow> (string \<times> real) list \<Rightarrow> (string \<times> ForcedAnswerState) list
     \<Rightarrow> (string \<times> ScenarioAnswerState) list \<Rightarrow> (string \<times> jsnum) list" where
  "categoryScore questionBank likertAnswers forcedAnswers scenarioAnswers =
     js_sort (\<lambda>a b. jsub (snd b) (snd a))
       (accumulate (\<lambda>axis. True) questionBank likertAnswers forcedAnswers scenarioAnswers)"

definition aptitudeScores ::
  "QuestionBank option \<Rightarrow> (string \<times> real) list \<Rightarrow> (string \<times> ForcedAnswerState) list
     \<Rightarrow> (string \<times> ScenarioAnswerState) list \<Rightarrow> (string \<times> jsnum) list" where
  "aptitudeScores questionBank likertAnswers forcedAnswers scenarioAnswers =
     js_sort (\<lambda>a b. jsub (snd b) (snd a))
       (accumulate isAptitudeAxis questionBank likertAnswers forcedAnswers scenarioAnswers)"

subsection \<open>Response aggregator: tag scores\<close>

record TagEntry =
  te_score :: jsnum
  te_questions :: "string list"

text \<open>
  \<^verbatim>\<open>addScore(key, value, questionId)\<close> of \<^verbatim>\<open>tagScores\<close>: a new key gets the entry with
  score 0 and no questions at the end of the map; the entry's score grows by the value
  and the question id is pushed unless the list includes it.
\<close>

definition addTagScore ::
  "string \<Rightarrow> jsnum \<Rightarrow> string \<Rightarrow> (string \<times> TagEntry) list \<Rightarrow> (string \<times> TagEntry) list" where
  "addTagScore key v questionId scores =
     (let entry = (case map_of scores key of
                     None \<Rightarrow> \<lparr>te_score = Num 0, te_questions = []\<rparr>
                   | Some e \<Rightarrow> e)
      in AList.update key
           \<lparr>te_score = jadd (te_score entry) v,
            te_questions = (if questionId \<in> set (te_questions entry) then te_questions entry
                            else te_questions entry @ [questionId])\<rparr>
           scores)"

definition likertTagStep ::
  "QuestionBank \<Rightarrow> (string \<times> TagEntry) list \<Rightarrow> string \<times> real \<Rightarrow> (string \<times> TagEntry) list" where
  "likertTagStep bank scores entry =
     (case entry of (qid, answerValue) \<Rightarrow>
        (case find (\<lambda>q. lq_id q = qid) (likert bank) of
           None \<Rightarrow> scores
         | Some question \<Rightarrow>
             (let normalized = (if polarity question = reverse then 8 - answerValue else answerValue)
              in foldl (\<lambda>sc tag. addTagScore (tag_name tag) (Num (normalized * tag_weight tag)) qid sc)
                   scores
                   (case lq_tags question of None \<Rightarrow> [] | Some ts \<Rightarrow> ts))))"

definition forcedTagStep ::
  "QuestionBank \<Rightarrow> (string \<times> TagEntry) list \<Rightarrow> string \<times> ForcedAnswerState
     \<Rightarrow> (string \<times> TagEntry) list" where
  "forcedTagStep bank scores entry =
     (case entry of (key, answer) \<Rightarrow>
        if optionKey answer = ''SKIP'' then scores
        else
          (let questionId = (case Split CHR ''|'' key of [] \<Rightarrow> [] | p # _ \<Rightarrow> p)
           in case find (\<lambda>q. fq_id q = questionId) (forcedChoice bank) of
                None \<Rightarrow> scores
              | Some question \<Rightarrow>
                  (case find (\<lambda>opt. co_key opt = optionKey answer) (fq_options question) of
                     None \<Rightarrow> scores
                   | Some opt \<Rightarrow>
                       foldl (\<lambda>sc tag.
                           addTagScore (tag_name tag)
                             (Num (wc_score (co_primary opt) * wc_weight (co_primary opt)
                                   * fa_confidence answer * tag_weight tag))
                             questionId sc)
                         scores
                         (case co_tags opt of None \<Rightarrow> [] | Some ts \<Rightarrow> ts))))"

definition scenarioTagStep ::
  "QuestionBank \<Rightarrow> (string \<times> TagEntry) list \<Rightarrow> string \<times> ScenarioAnswerState
     \<Rightarrow> (string \<times> TagEntry) list" where
  "scenarioTagStep bank scores entry =
     (case entry of (qid, answer) \<Rightarrow>
        (case find (\<lambda>q. sq_id q = qid) (scenario bank) of
           None \<Rightarrow> scores
         | Some question \<Rightarrow>
             foldl (\<lambda>sc ranked.
                 (case ranked of (index, key) \<Rightarrow>
                    (case find (\<lambda>opt. co_key opt = key) (sq_options question) of
                       None \<Rightarrow> sc
                     | Some opt \<Rightarrow>
                         (let rankWeight = rankWeightAt index
                          in foldl (\<lambda>sc' tag.
                                 addTagScore (tag_name tag)
                                   (jmul (jmul (Num (wc_score (co_primary opt)
                                                     * wc_weight (co_primary opt))) rankWeight)
                                         (Num (tag_weight tag)))
                                   qid sc')
                               sc
                               (case co_tags opt of None \<Rightarrow> [] | Some ts \<Rightarrow> ts)))))
               scores
               (List.enumerate 0 (rankedOptions answer))))"

definition tagAccumulate ::
  "QuestionBank option \<Rightarrow> (string \<times> real) list \<Rightarrow> (string \<times> ForcedAnswerState) list
     \<Rightarrow> (string \<times> ScenarioAnswerState) list \<Rightarrow> (string \<times> TagEntry) list" where
  "tagAccumulate questionBank likertAnswers forcedAnswers scenarioAnswers =
     (case questionBank of
        None \<Rightarrow> []
      | Some bank \<Rightarrow>
          foldl (scenarioTagStep bank)
            (foldl (forcedTagStep bank)
               (foldl (likertTagStep bank) [] likertAnswers)
               forcedAnswers)
            scenarioAnswers)"

definition tagScores ::
  "QuestionBank option \<Rightarrow> (string \<times> real) list \<Rightarrow> (string \<times> ForcedAnswerState) list
     \<Rightarrow> (string \<times> ScenarioAnswerState) list \<Rightarrow> (string \<times> TagEntry) list" where
  "tagScores questionBank likertAnswers forcedAnswers scenarioAnswers =
     take 10
       (js_sort (\<lambda>a b. jsub (te_score (snd b)) (te_score (snd a)))
          (tagAccumulate questionBank likertAnswers forcedAnswers scenarioAnswers))"

subsection \<open>Response aggregator: category co-occurrence\<close>









section \<open>Properties of the built-in sort\<close>

lemma insort_cmp_not_Nil: "insort_cmp c x ys \<noteq> []"
  by (cases ys) auto

lemma js_sort_Nil_iff: "js_sort c xs = [] \<longleftrightarrow> xs = []"
  by (cases xs) (auto simp: insort_cmp_not_Nil)

lemma set_insort_cmp: "set (insort_cmp c x ys) = insert x (set ys)"
  by (induction ys) auto

lemma set_js_sort: "set (js_sort c xs) = set xs"
  by (induction xs) (auto simp: set_insort_cmp)

lemma length_insort_cmp: "length (insort_cmp c x ys) = Suc (length ys)"
  by (induction ys) auto

lemma length_js_sort: "length (js_sort c xs) = length xs"
  by (induction xs) (auto simp: length_insort_cmp)

text \<open>
  With a comparator \<open>b.key - a.key\<close> on real keys the first element of the sorted list
  is the earliest element of maximal key.
\<close>

lemma js_sort_hd_first_max:
  "xs \<noteq> [] \<Longrightarrow>
     \<exists>h t pre post. js_sort (\<lambda>a b. Num (f b - f a)) xs = h # t \<and> xs = pre @ h # post
        \<and> (\<forall>y\<in>set pre. f y < f h) \<and> (\<forall>y\<in>set post. f y \<le> f h)"
proof (induction xs)
  case Nil
  then show ?case by simp
next
  case (Cons x xs)
  let ?c = "\<lambda>a b. Num (f b - f a)"
  show ?case
  proof (cases "xs = []")
    case True
    then show ?thesis
      by (intro exI [of _ x] exI [of _ "[]"]) simp
  next
    case False
    from Cons.IH [OF False] obtain h t pre post where
      s: "js_sort ?c xs = h # t" and d: "xs = pre @ h # post"
      and lo: "\<forall>y\<in>set pre. f y < f h" and hi: "\<forall>y\<in>set post. f y \<le> f h"
      by blast
    show ?thesis
    proof (cases "f h \<le> f x")
      case True
      have "js_sort ?c (x # xs) = x # h # t"
        using s True by (simp add: SortCompare_def)
      moreover have "\<forall>y\<in>set xs. f y \<le> f x"
        using d lo hi True by fastforce
      ultimately show ?thesis
        by (intro exI [of _ x] exI [of _ "h # t"] exI [of _ "[]"] exI [of _ xs]) simp
    next
      case False
      have "js_sort ?c (x # xs) = h # insort_cmp ?c x t"
        using s False by (simp add: SortCompare_def)
      moreover have "x # xs = (x # pre) @ h # post"
        using d by simp
      moreover have "\<forall>y\<in>set (x # pre). f y < f h"
        using lo False by simp
      ultimately show ?thesis
        using hi by blast
    qed
  qed
qed

section \<open>Adaptive selector\<close>

lemma pickNext_no_fallback:
  assumes "filter (candidate answers r) questions \<noteq> []"
  shows "\<exists>q pre post. pickNextLikertQuestion questions answers stats r = Some q
           \<and> filter (candidate answers r) questions = pre @ q # post
           \<and> (\<forall>y\<in>set pre. computeInformationGain y stats < computeInformationGain q stats)
           \<and> (\<forall>y\<in>set post. computeInformationGain y stats \<le> computeInformationGain q stats)"
proof -
  let ?cands = "filter (candidate answers r) questions"
  let ?g = "\<lambda>q. computeInformationGain q stats"
  let ?ps = "map (\<lambda>question. (question, ?g question)) ?cands"
  have ne: "?ps \<noteq> []" using assms by simp
  from js_sort_hd_first_max [OF ne, of snd] obtain h t pre post where
    s: "js_sort (\<lambda>a b. Num (snd b - snd a)) ?ps = h # t" and d: "?ps = pre @ h # post"
    and lo: "\<forall>y\<in>set pre. snd y < snd h" and hi: "\<forall>y\<in>set post. snd y \<le> snd h"
    by blast
  from d obtain pre' q post' where
    c: "?cands = pre' @ q # post'" and p1: "pre = map (\<lambda>question. (question, ?g question)) pre'"
    and hq: "h = (q, ?g q)" and p2: "post = map (\<lambda>question. (question, ?g question)) post'"
    by (auto simp: map_eq_append_conv map_eq_Cons_conv)
  have "pickNextLikertQuestion questions answers stats r = Some q"
    using assms s hq
    by (subst pickNextLikertQuestion.simps) (simp add: candidate_def [abs_def] Let_def)
  moreover have "\<forall>y\<in>set pre'. ?g y < ?g q" using lo p1 hq by simp
  moreover have "\<forall>y\<in>set post'. ?g y \<le> ?g q" using hi p2 hq by simp
  ultimately show ?thesis using c by blast
qed

lemma pickNext_empty:
  assumes "filter (candidate answers False) questions = []"
  shows "pickNextLikertQuestion questions answers stats False = None"
  using assms
  by (subst pickNextLikertQuestion.simps) (simp add: candidate_def [abs_def] Let_def)

lemma pickNext_fallback:
  assumes "filter (candidate answers True) questions = []"
  shows "pickNextLikertQuestion questions answers stats True
           = pickNextLikertQuestion questions answers stats False"
  using assms
  by (subst pickNextLikertQuestion.simps) (simp add: candidate_def [abs_def] Let_def)

lemma filter_eq_append_Cons:
  "filter P xs = pre @ q # post \<Longrightarrow>
     \<exists>pre' post'. xs = pre' @ q # post' \<and> filter P pre' = pre \<and> filter P post' = post \<and> P q"
proof (induction xs arbitrary: pre)
  case Nil
  then show ?case by simp
next
  case (Cons x xs)
  show ?case
  proof (cases "P x")
    case False
    with Cons.prems have "filter P xs = pre @ q # post" by simp
    from Cons.IH [OF this] obtain pre' post' where
      "xs = pre' @ q # post'" "filter P pre' = pre" "filter P post' = post" "P q" by blast
    with False show ?thesis
      by (intro exI [of _ "x # pre'"] exI [of _ post']) simp
  next
    case True
    show ?thesis
    proof (cases pre)
      case Nil
      with True Cons.prems show ?thesis
        by (intro exI [of _ "[]"] exI [of _ xs]) simp
    next
      case (Cons p ps)
      with True Cons.prems have px: "p = x" and "filter P xs = ps @ q # post" by simp_all
      from Cons.IH [OF this(2)] obtain pre' post' where
        "xs = pre' @ q # post'" "filter P pre' = ps" "filter P post' = post" "P q" by blast
      with True Cons px show ?thesis
        by (intro exI [of _ "x # pre'"] exI [of _ post']) simp
    qed
  qed
qed

lemma foldl_add_sum_list:
  "foldl (\<lambda>acc current. acc + f current) (a::real) xs = a + sum_list (map f xs)"
  by (induction xs arbitrary: a) simp_all

text \<open>
  Claim C5. With \<open>requiredOnly\<close> set and a required item unanswered, the returned item
  is a required unanswered item of the list. With \<open>requiredOnly\<close> set and no required
  item unanswered, the call equals the call with \<open>requiredOnly\<close> unset (which never
  recurses: the function is total). The call returns none exactly when every item of the
  list is answered.
\<close>

theorem pickNext_required_first_fallback_none:
  "((\<exists>q\<in>set questions. lq_required q \<and> lq_id q \<notin> fst ` set answers) \<longrightarrow>
      (\<exists>q\<in>set questions. pickNextLikertQuestion questions answers stats True = Some q
          \<and> lq_required q \<and> lq_id q \<notin> fst ` set answers))
   \<and> (\<not> (\<exists>q\<in>set questions. lq_required q \<and> lq_id q \<notin> fst ` set answers) \<longrightarrow>
        pickNextLikertQuestion questions answers stats True
          = pickNextLikertQuestion questions answers stats False)
   \<and> (pickNextLikertQuestion questions answers stats requiredOnly = None
        \<longleftrightarrow> (\<forall>q\<in>set questions. lq_id q \<in> fst ` set answers))"
proof (intro conjI impI)
  assume "\<exists>q\<in>set questions. lq_required q \<and> lq_id q \<notin> fst ` set answers"
  then have ne: "filter (candidate answers True) questions \<noteq> []"
    by (auto simp: filter_empty_conv candidate_def)
  from pickNext_no_fallback [OF ne, of stats] obtain q pre post where
    "pickNextLikertQuestion questions answers stats True = Some q"
    "filter (candidate answers True) questions = pre @ q # post"
    by blast
  moreover from this(2) have "q \<in> set (filter (candidate answers True) questions)" by simp
  then have "q \<in> set questions \<and> lq_required q \<and> lq_id q \<notin> fst ` set answers"
    by (auto simp: candidate_def)
  ultimately show "\<exists>q\<in>set questions. pickNextLikertQuestion questions answers stats True = Some q
          \<and> lq_required q \<and> lq_id q \<notin> fst ` set answers"
    by blast
next
  assume "\<not> (\<exists>q\<in>set questions. lq_required q \<and> lq_id q \<notin> fst ` set answers)"
  then have "filter (candidate answers True) questions = []"
    by (auto simp: filter_empty_conv candidate_def)
  then show "pickNextLikertQuestion questions answers stats True
          = pickNextLikertQuestion questions answers stats False"
    by (rule pickNext_fallback)
next
  have F: "pickNextLikertQuestion questions answers stats False = None
        \<longleftrightarrow> (\<forall>q\<in>set questions. lq_id q \<in> fst ` set answers)"
  proof (cases "filter (candidate answers False) questions = []")
    case True
    then show ?thesis
      using pickNext_empty [OF True, of stats] by (auto simp: filter_empty_conv candidate_def)
  next
    case False
    from pickNext_no_fallback [OF False, of stats] False show ?thesis
      by (auto simp: filter_empty_conv candidate_def)
  qed
  have T: "pickNextLikertQuestion questions answers stats True = None
        \<longleftrightarrow> (\<forall>q\<in>set questions. lq_id q \<in> fst ` set answers)"
  proof (cases "filter (candidate answers True) questions = []")
    case True
    then show ?thesis
      using pickNext_fallback [OF True, of stats] F by simp
  next
    case False
    from pickNext_no_fallback [OF False, of stats] False show ?thesis
      by (auto simp: filter_empty_conv candidate_def)
  qed
  show "pickNextLikertQuestion questions answers stats requiredOnly = None
        \<longleftrightarrow> (\<forall>q\<in>set questions. lq_id q \<in> fst ` set answers)"
    using F T by (cases requiredOnly) simp_all
qed

text \<open>
  Claim C6. When the candidate set is not empty, the result is a candidate of maximal
  information gain, and every candidate before it in the question list has strictly
  smaller gain (ties go to the earliest). The gain is 1 when the axis has no entry or a
  zero count, and otherwise \<open>|4 - sum / count|\<close> times one plus the sum of the weights of
  the related categories (0 when there are none).
\<close>

theorem pickNext_max_gain_earliest:
  "(filter (\<lambda>q. lq_id q \<notin> fst ` set answers \<and> (\<not> requiredOnly \<or> lq_required q)) questions \<noteq> [] \<longrightarrow>
     (\<exists>q pre post. pickNextLikertQuestion questions answers stats requiredOnly = Some q
        \<and> questions = pre @ q # post
        \<and> lq_id q \<notin> fst ` set answers \<and> (\<not> requiredOnly \<or> lq_required q)
        \<and> (\<forall>y\<in>set pre. lq_id y \<notin> fst ` set answers \<and> (\<not> requiredOnly \<or> lq_required y)
              \<longrightarrow> computeInformationGain y stats < computeInformationGain q stats)
        \<and> (\<forall>y\<in>set post. lq_id y \<notin> fst ` set answers \<and> (\<not> requiredOnly \<or> lq_required y)
              \<longrightarrow> computeInformationGain y stats \<le> computeInformationGain q stats)))
   \<and> computeInformationGain c stats =
       (case stats (lq_axis c) of
          None \<Rightarrow> 1
        | Some a \<Rightarrow>
            if stat_count a = 0 then 1
            else \<bar>4 - stat_sum a / stat_count a\<bar>
                 * (1 + sum_list (map rc_weight
                          (case relatedCategories c of None \<Rightarrow> [] | Some rs \<Rightarrow> rs))))"
proof (intro conjI impI)
  let ?P = "candidate answers requiredOnly"
  let ?g = "\<lambda>q. computeInformationGain q stats"
  assume "filter (\<lambda>q. lq_id q \<notin> fst ` set answers \<and> (\<not> requiredOnly \<or> lq_required q)) questions \<noteq> []"
  then have ne: "filter ?P questions \<noteq> []"
    by (simp add: candidate_def [abs_def])
  from pickNext_no_fallback [OF ne, of stats] obtain q pre post where
    r: "pickNextLikertQuestion questions answers stats requiredOnly = Some q"
    and d: "filter ?P questions = pre @ q # post"
    and lo: "\<forall>y\<in>set pre. ?g y < ?g q" and hi: "\<forall>y\<in>set post. ?g y \<le> ?g q"
    by blast
  from filter_eq_append_Cons [OF d] obtain pre' post' where
    q: "questions = pre' @ q # post'" and f1: "filter ?P pre' = pre"
    and f2: "filter ?P post' = post" and pq: "?P q"
    by blast
  have "\<forall>y\<in>set pre'. ?P y \<longrightarrow> ?g y < ?g q" using lo f1 by auto
  moreover have "\<forall>y\<in>set post'. ?P y \<longrightarrow> ?g y \<le> ?g q" using hi f2 by auto
  ultimately show "\<exists>q pre post. pickNextLikertQuestion questions answers stats requiredOnly = Some q
        \<and> questions = pre @ q # post
        \<and> lq_id q \<notin> fst ` set answers \<and> (\<not> requiredOnly \<or> lq_required q)
        \<and> (\<forall>y\<in>set pre. lq_id y \<notin> fst ` set answers \<and> (\<not> requiredOnly \<or> lq_required y)
              \<longrightarrow> computeInformationGain y stats < computeInformationGain q stats)
        \<and> (\<forall>y\<in>set post. lq_id y \<notin> fst ` set answers \<and> (\<not> requiredOnly \<or> lq_required y)
              \<longrightarrow> computeInformationGain y stats \<le> computeInformationGain q stats)"
    using r q pq unfolding candidate_def
    by (intro exI [of _ q] exI [of _ pre'] exI [of _ post']) simp
next
  show "computeInformationGain c stats =
       (case stats (lq_axis c) of
          None \<Rightarrow> 1
        | Some a \<Rightarrow>
            if stat_count a = 0 then 1
            else \<bar>4 - stat_sum a / stat_count a\<bar>
                 * (1 + sum_list (map rc_weight
                          (case relatedCategories c of None \<Rightarrow> [] | Some rs \<Rightarrow> rs))))"
    by (simp add: computeInformationGain_def Let_def foldl_add_sum_list split: option.splits)
qed


theorem pickNext_required_first_fallback_none_witness:
  "pickNextLikertQuestion
     [\<lparr>lq_id = ''L1'', lq_axis = ''activity'', primaryCategory = ''c1'', polarity = positive,
        lq_required = True, relatedCategories = None, lq_tags = None\<rparr>,
      \<lparr>lq_id = ''L2'', lq_axis = ''activity'', primaryCategory = ''c2'', polarity = positive,
        lq_required = False, relatedCategories = None, lq_tags = None\<rparr>]
     [] Map.empty True
     = Some \<lparr>lq_id = ''L1'', lq_axis = ''activity'', primaryCategory = ''c1'', polarity = positive,
        lq_required = True, relatedCategories = None, lq_tags = None\<rparr>
   \<and> pickNextLikertQuestion
     [\<lparr>lq_id = ''L1'', lq_axis = ''activity'', primaryCategory = ''c1'', polarity = positive,
        lq_required = True, relatedCategories = None, lq_tags = None\<rparr>,
      \<lparr>lq_id = ''L2'', lq_axis = ''activity'', primaryCategory = ''c2'', polarity = positive,
        lq_required = False, relatedCategories = None, lq_tags = None\<rparr>]
     [(''L1'', 5)] Map.empty True
     = pickNextLikertQuestion
     [\<lparr>lq_id = ''L1'', lq_axis = ''activity'', primaryCategory = ''c1'', polarity = positive,
        lq_required = True, relatedCategories = None, lq_tags = None\<rparr>,
      \<lparr>lq_id = ''L2'', lq_axis = ''activity'', primaryCategory = ''c2'', polarity = positive,
        lq_required = False, relatedCategories = None, lq_tags = None\<rparr>]
     [(''L1'', 5)] Map.empty False
   \<and> pickNextLikertQuestion
     [\<lparr>lq_id = ''L1'', lq_axis = ''activity'', primaryCategory = ''c1'', polarity = positive,
        lq_required = True, relatedCategories = None, lq_tags = None\<rparr>,
      \<lparr>lq_id = ''L2'', lq_axis = ''activity'', primaryCategory = ''c2'', polarity = positive,
        lq_required = False, relatedCategories = None, lq_tags = None\<rparr>]
     [(''L1'', 5), (''L2'', 3)] Map.empty True = None"
proof -
  let ?q1 = "\<lparr>lq_id = ''L1'', lq_axis = ''activity'', primaryCategory = ''c1'', polarity = positive,
        lq_required = True, relatedCategories = None, lq_tags = None\<rparr>"
  let ?q2 = "\<lparr>lq_id = ''L2'', lq_axis = ''activity'', primaryCategory = ''c2'', polarity = positive,
        lq_required = False, relatedCategories = None, lq_tags = None\<rparr>"
  have "pickNextLikertQuestion [?q1, ?q2] [] Map.empty True = Some ?q1"
    using pickNext_required_first_fallback_none [of "[?q1, ?q2]" "[]" Map.empty True] by auto
  moreover have "pickNextLikertQuestion [?q1, ?q2] [(''L1'', 5)] Map.empty True
       = pickNextLikertQuestion [?q1, ?q2] [(''L1'', 5)] Map.empty False"
    using pickNext_required_first_fallback_none [of "[?q1, ?q2]" "[(''L1'', 5)]" Map.empty True]
    by simp
  moreover have "pickNextLikertQuestion [?q1, ?q2] [(''L1'', 5), (''L2'', 3)] Map.empty True = None"
    using pickNext_required_first_fallback_none
      [of "[?q1, ?q2]" "[(''L1'', 5), (''L2'', 3)]" Map.empty True, THEN conjunct2, THEN conjunct2]
    by simp
  ultimately show ?thesis by blast
qed

theorem pickNext_max_gain_earliest_witness:
  "pickNextLikertQuestion
     [\<lparr>lq_id = ''L1'', lq_axis = ''activity'', primaryCategory = ''c1'', polarity = positive,
        lq_required = True, relatedCategories = None, lq_tags = None\<rparr>,
      \<lparr>lq_id = ''L2'', lq_axis = ''learning_style'', primaryCategory = ''c2'', polarity = positive,
        lq_required = False, relatedCategories = None, lq_tags = None\<rparr>,
      \<lparr>lq_id = ''L3'', lq_axis = ''activity'', primaryCategory = ''c3'', polarity = reverse,
        lq_required = False,
        relatedCategories = Some [\<lparr>rc_axis = ''activity'', rc_category = ''c1'', rc_weight = 1 / 2\<rparr>],
        lq_tags = None\<rparr>]
     [] [''activity'' \<mapsto> \<lparr>stat_sum = 10, stat_count = 2\<rparr>] False
     = Some \<lparr>lq_id = ''L3'', lq_axis = ''activity'', primaryCategory = ''c3'', polarity = reverse,
        lq_required = False,
        relatedCategories = Some [\<lparr>rc_axis = ''activity'', rc_category = ''c1'', rc_weight = 1 / 2\<rparr>],
        lq_tags = None\<rparr>"
proof -
  let ?q1 = "\<lparr>lq_id = ''L1'', lq_axis = ''activity'', primaryCategory = ''c1'', polarity = positive,
        lq_required = True, relatedCategories = None, lq_tags = None\<rparr>"
  let ?q2 = "\<lparr>lq_id = ''L2'', lq_axis = ''learning_style'', primaryCategory = ''c2'', polarity = positive,
        lq_required = False, relatedCategories = None, lq_tags = None\<rparr>"
  let ?q3 = "\<lparr>lq_id = ''L3'', lq_axis = ''activity'', primaryCategory = ''c3'', polarity = reverse,
        lq_required = False,
        relatedCategories = Some [\<lparr>rc_axis = ''activity'', rc_category = ''c1'', rc_weight = 1 / 2\<rparr>],
        lq_tags = None\<rparr>"
  let ?st = "[''activity'' \<mapsto> \<lparr>stat_sum = 10, stat_count = 2\<rparr>]"
  have g1: "computeInformationGain ?q1 ?st = 1"
    using pickNext_max_gain_earliest
      [where c = "?q1" and stats = "?st" and questions = "[]" and answers = "[]"
         and requiredOnly = False]
    by simp
  have g2: "computeInformationGain ?q2 ?st = 1"
    using pickNext_max_gain_earliest
      [where c = "?q2" and stats = "?st" and questions = "[]" and answers = "[]"
         and requiredOnly = False]
    by simp
  have g3: "computeInformationGain ?q3 ?st = 3 / 2"
    using pickNext_max_gain_earliest
      [where c = "?q3" and stats = "?st" and questions = "[]" and answers = "[]"
         and requiredOnly = False]
    by simp
  have ne: "filter (\<lambda>q. lq_id q \<notin> fst ` set ([] :: (string \<times> real) list)
                \<and> (\<not> False \<or> lq_required q)) [?q1, ?q2, ?q3] \<noteq> []"
    by simp
  note m = pickNext_max_gain_earliest
    [where questions = "[?q1, ?q2, ?q3]" and stats = "?st" and answers = "[]"
       and requiredOnly = False, THEN conjunct1, THEN mp, OF ne]
  from m obtain q pre post where
    r: "pickNextLikertQuestion [?q1, ?q2, ?q3] [] ?st False = Some q"
    and d: "[?q1, ?q2, ?q3] = pre @ q # post"
    and hi': "\<forall>y\<in>set post. lq_id y \<notin> fst ` set ([] :: (string \<times> real) list)
                \<and> (\<not> False \<or> lq_required y)
              \<longrightarrow> computeInformationGain y ?st \<le> computeInformationGain q ?st"
    by blast
  from hi' have hi: "\<forall>y\<in>set post. computeInformationGain y ?st \<le> computeInformationGain q ?st"
    by simp
  from d have "q = ?q3 \<or> ?q3 \<in> set post"
    by (auto simp: Cons_eq_append_conv)
  moreover from d have "q = ?q1 \<or> q = ?q2 \<or> q = ?q3"
    by (auto simp: Cons_eq_append_conv)
  ultimately have "q = ?q3"
    using hi g1 g2 g3 by fastforce
  with r show ?thesis by simp
qed

section \<open>Calibration analyzer\<close>

lemma set_GroupBy:
  "set (GroupBy key xs) = (\<lambda>k. (k, filter (\<lambda>x. key x = k) xs)) ` (key ` set xs)"
  by (simp add: GroupBy_def)

lemma map_of_GroupBy:
  "map_of (GroupBy key xs) k =
     (if k \<in> key ` set xs then Some (filter (\<lambda>x. key x = k) xs) else None)"
  by (simp add: GroupBy_def map_of_map_restrict restrict_map_def)


lemma CronbachAlpha_Some_zero: "CronbachAlpha vs rc = Some a \<Longrightarrow> a = 0"
  by (auto simp: CronbachAlpha_def Let_def split: if_splits)

lemma CronbachAlpha_defined_iff:
  "CronbachAlpha vs rc \<noteq> None \<longleftrightarrow> 2 \<le> length vs \<and> 2 \<le> rc \<and> sum_list vs \<noteq> 0"
  by (auto simp: CronbachAlpha_def Let_def split: if_splits)

lemma cronbachAlpha_AnalyzeLikert:
  assumes "(axis, alpha) \<in> set (cronbachAlpha (AnalyzeLikert likertItems responses))"
  shows "alpha =
      CronbachAlpha
        (map s_variance (filter (\<lambda>s. s_axis s = axis) (la_items (AnalyzeLikert likertItems responses))))
        (max 1 (int (length responses)
           div max (int (length (filter (\<lambda>s. s_axis s = axis)
                      (la_items (AnalyzeLikert likertItems responses))))) 1))"
  using assms by (auto simp: AnalyzeLikert_def Let_def set_GroupBy)


lemma map_of_GroupBy_filter:
  assumes "\<And>x. x \<in> set xs \<Longrightarrow> key x = k \<Longrightarrow> P x"
  shows "map_of (GroupBy key (filter P xs)) k =
     (if filter (\<lambda>x. key x = k) xs = [] then None else Some (filter (\<lambda>x. key x = k) xs))"
proof -
  have f: "filter (\<lambda>x. key x = k) (filter P xs) = filter (\<lambda>x. key x = k) xs"
    unfolding filter_filter by (rule filter_cong) (use assms in auto)
  have "k \<in> key ` set (filter P xs) \<longleftrightarrow> filter (\<lambda>x. key x = k) (filter P xs) \<noteq> []"
    by (auto simp: filter_empty_conv)
  then show ?thesis
    unfolding map_of_GroupBy f by simp
qed

lemma map_of_GroupBy_filter_None:
  assumes "\<And>x. x \<in> set xs \<Longrightarrow> key x = k \<Longrightarrow> \<not> P x"
  shows "map_of (GroupBy key (filter P xs)) k = None"
  using assms by (auto simp: map_of_GroupBy)


lemma la_items_AnalyzeLikert:
  "la_items (AnalyzeLikert likertItems responses) =
     concat (map (\<lambda>item.
        (let records = filter (\<lambda>r. itemId r = li_id item) responses
         in if records = [] then [] else [likertSummary item records responses]))
       likertItems)"
proof -
  have "map_of (GroupBy itemId (filter (\<lambda>r. \<exists>l\<in>set likertItems. li_id l = itemId r) responses))
          (li_id item)
        = (if filter (\<lambda>r. itemId r = li_id item) responses = [] then None
           else Some (filter (\<lambda>r. itemId r = li_id item) responses))"
    if "item \<in> set likertItems" for item
    by (rule map_of_GroupBy_filter) (use that in auto)
  then show ?thesis
    by (auto simp: AnalyzeLikert_def Let_def intro!: arg_cong [where f = concat] map_cong)
qed

lemma composite_contains_bar: "CHR ''|'' \<in> set (q @ ''|'' @ k)"
  by simp

lemma prefix_SC_composite: "prefix ''SC-'' (q @ CHR ''|'' # k) \<longleftrightarrow> prefix ''SC-'' q"
proof (cases q)
  case Nil
  then show ?thesis by simp
next
  case c1: (Cons a q1)
  show ?thesis
  proof (cases q1)
    case Nil
    with c1 show ?thesis by simp
  next
    case c2: (Cons b q2)
    show ?thesis
    proof (cases q2)
      case Nil
      with c1 c2 show ?thesis by simp
    next
      case (Cons c q3)
      with c1 c2 show ?thesis by simp
    qed
  qed
qed

lemma prefix_SC_transfer:
  "prefix ''SC-'' q' \<Longrightarrow> q' @ CHR ''|'' # k' = q @ CHR ''|'' # k \<Longrightarrow> prefix ''SC-'' q"
  by (metis prefix_SC_composite)

lemma AnalyzeForcedChoice_eq:
  "AnalyzeForcedChoice forcedChoiceItems responses =
     concat (map (\<lambda>item.
       concat (map (\<lambda>option.
          (let compositeId = fi_id item @ ''|'' @ opt_key option;
               records = filter (\<lambda>r. itemId r = compositeId) responses
           in if records = [] then [] else [optionSummary compositeId option records]))
         (fi_options item)))
       forcedChoiceItems)"
proof -
  have "map_of (GroupBy itemId (filter (\<lambda>r. CHR ''|'' \<in> set (itemId r)) responses)) (q @ ''|'' @ k)
        = (if filter (\<lambda>r. itemId r = q @ ''|'' @ k) responses = [] then None
           else Some (filter (\<lambda>r. itemId r = q @ ''|'' @ k) responses))" for q k
    by (rule map_of_GroupBy_filter) simp
  then show ?thesis
    by (simp add: AnalyzeForcedChoice_def Let_def if_distrib [where f = "case_option _ _"]
          cong: if_cong)
qed

lemma AnalyzeScenario_eq:
  "AnalyzeScenario scenarioItems responses =
     concat (map (\<lambda>item.
       concat (map (\<lambda>option.
          (let compositeId = si_id item @ ''|'' @ opt_key option;
               records = filter (\<lambda>r. itemId r = compositeId) responses
           in if records = [] \<or> \<not> prefix ''SC-'' (si_id item) then []
              else [optionSummary compositeId option records]))
         (si_options item)))
       scenarioItems)"
proof -
  have "map_of (GroupBy itemId (filter (\<lambda>r. prefix ''SC-'' (itemId r)) responses)) (q @ ''|'' @ k)
        = (if filter (\<lambda>r. itemId r = q @ ''|'' @ k) responses = [] \<or> \<not> prefix ''SC-'' q then None
           else Some (filter (\<lambda>r. itemId r = q @ ''|'' @ k) responses))" for q k
  proof (cases "prefix ''SC-'' q")
    case True
    have "map_of (GroupBy itemId (filter (\<lambda>r. prefix ''SC-'' (itemId r)) responses)) (q @ ''|'' @ k)
        = (if filter (\<lambda>r. itemId r = q @ ''|'' @ k) responses = [] then None
           else Some (filter (\<lambda>r. itemId r = q @ ''|'' @ k) responses))"
      by (rule map_of_GroupBy_filter) (use True in \<open>simp add: prefix_SC_composite\<close>)
    with True show ?thesis by simp
  next
    case False
    have "map_of (GroupBy itemId (filter (\<lambda>r. prefix ''SC-'' (itemId r)) responses)) (q @ ''|'' @ k)
        = None"
      by (rule map_of_GroupBy_filter_None) (use False in \<open>simp add: prefix_SC_composite\<close>)
    with False show ?thesis by simp
  qed
  then show ?thesis
    by (simp add: AnalyzeScenario_def Let_def if_distrib [where f = "case_option _ _"]
          cong: if_cong)
qed

lemma optionSummary_fields:
  "s_itemId (optionSummary c opt records) = c"
  "s_mean (optionSummary c opt records) = Average (map rvalue records)"
  "s_variance (optionSummary c opt records) =
     (if 1 < length records
      then sum_list (map (\<lambda>v. (v - Average (map rvalue records)) ^ 2) (map rvalue records))
             / (real (length records) - 1)
      else 0)"
  by (simp_all add: optionSummary_def Let_def sampleVariance_def)

lemma in_AnalyzeForcedChoice:
  "s \<in> set (AnalyzeForcedChoice forcedChoiceItems responses) \<longleftrightarrow>
     (\<exists>item\<in>set forcedChoiceItems. \<exists>option\<in>set (fi_options item).
        filter (\<lambda>r. itemId r = fi_id item @ ''|'' @ opt_key option) responses \<noteq> []
        \<and> s = optionSummary (fi_id item @ ''|'' @ opt_key option) option
                (filter (\<lambda>r. itemId r = fi_id item @ ''|'' @ opt_key option) responses))"
  by (auto simp: AnalyzeForcedChoice_eq Let_def split: if_splits)

lemma in_AnalyzeScenario:
  "s \<in> set (AnalyzeScenario scenarioItems responses) \<longleftrightarrow>
     (\<exists>item\<in>set scenarioItems. \<exists>option\<in>set (si_options item).
        filter (\<lambda>r. itemId r = si_id item @ ''|'' @ opt_key option) responses \<noteq> []
        \<and> prefix ''SC-'' (si_id item)
        \<and> s = optionSummary (si_id item @ ''|'' @ opt_key option) option
                (filter (\<lambda>r. itemId r = si_id item @ ''|'' @ opt_key option) responses))"
  by (auto simp: AnalyzeScenario_eq Let_def split: if_splits)






text \<open>
  Claim C9. The alpha is defined exactly when there are at least two item variances, the
  respondent count is at least two and the total variance is not 0; whenever it is
  defined, its value is 0, for the function and for every alpha the analysis reports.
\<close>

theorem CronbachAlpha_always_zero:
  "(CronbachAlpha vs rc \<noteq> None \<longleftrightarrow> 2 \<le> length vs \<and> 2 \<le> rc \<and> sum_list vs \<noteq> 0)
   \<and> (CronbachAlpha vs rc = Some a \<longrightarrow> a = 0)
   \<and> ((axis, Some b) \<in> set (cronbachAlpha (AnalyzeLikert likertItems responses)) \<longrightarrow> b = 0)"
proof (intro conjI impI)
  show "CronbachAlpha vs rc \<noteq> None \<longleftrightarrow> 2 \<le> length vs \<and> 2 \<le> rc \<and> sum_list vs \<noteq> 0"
    by (rule CronbachAlpha_defined_iff)
next
  assume "CronbachAlpha vs rc = Some a"
  then show "a = 0" by (rule CronbachAlpha_Some_zero)
next
  assume "(axis, Some b) \<in> set (cronbachAlpha (AnalyzeLikert likertItems responses))"
  from cronbachAlpha_AnalyzeLikert [OF this] show "b = 0"
    using CronbachAlpha_Some_zero by metis
qed

theorem CronbachAlpha_always_zero_witness:
  "CronbachAlpha [2, 1 / 2] 2 = Some 0 \<and> CronbachAlpha [3, 1, 4] 7 = Some 0"
proof -
  have d1: "CronbachAlpha [2, 1 / 2] 2 \<noteq> None"
    using CronbachAlpha_always_zero [of "[2, 1 / 2]" 2, THEN conjunct1] by simp
  then obtain a where a: "CronbachAlpha [2, 1 / 2] 2 = Some a" by auto
  have "a = 0"
    using CronbachAlpha_always_zero [of "[2, 1 / 2]" 2 a, THEN conjunct2, THEN conjunct1] a
    by blast
  have d2: "CronbachAlpha [3, 1, 4] 7 \<noteq> None"
    using CronbachAlpha_always_zero [of "[3, 1, 4]" 7, THEN conjunct1] by simp
  then obtain b where b: "CronbachAlpha [3, 1, 4] 7 = Some b" by auto
  have "b = 0"
    using CronbachAlpha_always_zero [of "[3, 1, 4]" 7 b, THEN conjunct2, THEN conjunct1] b
    by blast
  with \<open>a = 0\<close> a b show ?thesis by simp
qed

text \<open>
  Claim C2, evaluated on the code. One Likert item and one forced-choice option, each with
  a single record that carries a response time of 3000 ms and no confidence. The claim
  gives the confidence multiplier 1 there, so the effective weight would equal the
  recommended weight (the time multiplier is 1). The code averages the empty selection
  through \<^verbatim>\<open>DefaultIfEmpty\<close>, which yields 0, reports the average confidence 0 and
  applies the multiplier of the lowest bucket, 0.8.
\<close>

theorem effectiveWeight_without_confidence_data:
  "la_items (AnalyzeLikert
     [\<lparr>li_id = ''L1'', li_axis = ''activity'', li_primaryCategory = ''c1'',
        li_polarity = ''positive'', li_relatedCategories = []\<rparr>]
     [\<lparr>respondentId = ''r1'', itemId = ''L1'', rvalue = 5, responseTimeMs = Some 3000,
        confidence = None\<rparr>])
   = [\<lparr>s_itemId = ''L1'', s_axis = ''activity'', s_category = ''c1'', s_mean = 5, s_variance = 0,
        effectiveWeight = 4 / 5, recommendedWeight = 1, itemTotalCorrelation = None,
        averageResponseTimeMs = Some 3000, averageConfidence = Some 0\<rparr>]
   \<and> CalculateTimeMultiplier (Some 3000) = 1
   \<and> AnalyzeForcedChoice
       [\<lparr>fi_id = ''FC-01'', fi_required = True,
          fi_options = [\<lparr>opt_key = ''A'',
             opt_primary = \<lparr>wc_axis = ''activity'', wc_category = ''c1'', wc_score = 1, wc_weight = 1\<rparr>,
             opt_secondary = []\<rparr>]\<rparr>]
       [\<lparr>respondentId = ''r1'', itemId = ''FC-01|A'', rvalue = 1, responseTimeMs = Some 3000,
          confidence = None\<rparr>]
     = [\<lparr>s_itemId = ''FC-01|A'', s_axis = ''activity'', s_category = ''c1'', s_mean = 1,
          s_variance = 0, effectiveWeight = 12 / 25, recommendedWeight = 3 / 5,
          itemTotalCorrelation = None, averageResponseTimeMs = Some 3000,
          averageConfidence = Some 0\<rparr>]"
  by (simp add: la_items_AnalyzeLikert AnalyzeForcedChoice_eq Let_def likertSummary_def
      optionSummary_def Average_def sampleVariance_def ItemTotalCorrelation_def averageTimeOf_def
      averageConfidenceOf_def DefaultIfEmpty_def CalculateTimeMultiplier_def
      CalculateConfidenceMultiplier_def Clamp_def)

text \<open>
  Claim C3, as amended. For a forced-choice option, and for a scenario option whose
  question id starts with \<^verbatim>\<open>SC-\<close>, a summary with the composite id is produced as soon
  as one record has that item id; every summary with that id has the mean and the
  Bessel-corrected sample variance (0 for a single value) of all records with that item
  id. For a scenario option whose question id does not start with \<^verbatim>\<open>SC-\<close> no summary
  with its composite id is produced, whatever the records.
\<close>

theorem option_statistics_over_composite_id:
  "(\<forall>item\<in>set forcedChoiceItems. \<forall>option\<in>set (fi_options item).
      (let compositeId = fi_id item @ ''|'' @ opt_key option;
           records = filter (\<lambda>r. itemId r = compositeId) responses
       in (records \<noteq> [] \<longrightarrow>
             (\<exists>s\<in>set (AnalyzeForcedChoice forcedChoiceItems responses). s_itemId s = compositeId))
          \<and> (\<forall>s\<in>set (AnalyzeForcedChoice forcedChoiceItems responses).
               s_itemId s = compositeId \<longrightarrow>
                 records \<noteq> []
                 \<and> s_mean s = Average (map rvalue records)
                 \<and> s_variance s =
                     (if 1 < length records
                      then sum_list (map (\<lambda>v. (v - Average (map rvalue records)) ^ 2)
                                      (map rvalue records))
                             / (real (length records) - 1)
                      else 0))))
   \<and> (\<forall>item\<in>set scenarioItems. \<forall>option\<in>set (si_options item).
      (let compositeId = si_id item @ ''|'' @ opt_key option;
           records = filter (\<lambda>r. itemId r = compositeId) responses
       in (records \<noteq> [] \<and> prefix ''SC-'' (si_id item) \<longrightarrow>
             (\<exists>s\<in>set (AnalyzeScenario scenarioItems responses). s_itemId s = compositeId))
          \<and> (\<forall>s\<in>set (AnalyzeScenario scenarioItems responses).
               s_itemId s = compositeId \<longrightarrow>
                 prefix ''SC-'' (si_id item)
                 \<and> records \<noteq> []
                 \<and> s_mean s = Average (map rvalue records)
                 \<and> s_variance s =
                     (if 1 < length records
                      then sum_list (map (\<lambda>v. (v - Average (map rvalue records)) ^ 2)
                                      (map rvalue records))
                             / (real (length records) - 1)
                      else 0))))"
proof (intro conjI ballI)
  fix item option
  assume io: "item \<in> set forcedChoiceItems" "option \<in> set (fi_options item)"
  let ?c = "fi_id item @ ''|'' @ opt_key option"
  let ?r = "filter (\<lambda>r. itemId r = ?c) responses"
  have ex: "\<exists>s\<in>set (AnalyzeForcedChoice forcedChoiceItems responses). s_itemId s = ?c"
    if "?r \<noteq> []"
  proof -
    have "optionSummary ?c option ?r \<in> set (AnalyzeForcedChoice forcedChoiceItems responses)"
      unfolding in_AnalyzeForcedChoice using io that by blast
    then show ?thesis
      using optionSummary_fields(1) by blast
  qed
  have st: "?r \<noteq> [] \<and> s_mean s = Average (map rvalue ?r)
      \<and> s_variance s =
          (if 1 < length ?r
           then sum_list (map (\<lambda>v. (v - Average (map rvalue ?r)) ^ 2) (map rvalue ?r))
                  / (real (length ?r) - 1)
           else 0)"
    if "s \<in> set (AnalyzeForcedChoice forcedChoiceItems responses)" "s_itemId s = ?c" for s
    using that by (auto simp: in_AnalyzeForcedChoice optionSummary_fields)
  show "let compositeId = fi_id item @ ''|'' @ opt_key option;
           records = filter (\<lambda>r. itemId r = compositeId) responses
       in (records \<noteq> [] \<longrightarrow>
             (\<exists>s\<in>set (AnalyzeForcedChoice forcedChoiceItems responses). s_itemId s = compositeId))
          \<and> (\<forall>s\<in>set (AnalyzeForcedChoice forcedChoiceItems responses).
               s_itemId s = compositeId \<longrightarrow>
                 records \<noteq> []
                 \<and> s_mean s = Average (map rvalue records)
                 \<and> s_variance s =
                     (if 1 < length records
                      then sum_list (map (\<lambda>v. (v - Average (map rvalue records)) ^ 2)
                                      (map rvalue records))
                             / (real (length records) - 1)
                      else 0))"
    unfolding Let_def using ex st by blast
next
  fix item option
  assume io: "item \<in> set scenarioItems" "option \<in> set (si_options item)"
  let ?c = "si_id item @ ''|'' @ opt_key option"
  let ?r = "filter (\<lambda>r. itemId r = ?c) responses"
  have ex: "\<exists>s\<in>set (AnalyzeScenario scenarioItems responses). s_itemId s = ?c"
    if "?r \<noteq> []" "prefix ''SC-'' (si_id item)"
  proof -
    have "optionSummary ?c option ?r \<in> set (AnalyzeScenario scenarioItems responses)"
      unfolding in_AnalyzeScenario using io that by blast
    then show ?thesis
      using optionSummary_fields(1) by blast
  qed
  have st: "prefix ''SC-'' (si_id item) \<and> ?r \<noteq> [] \<and> s_mean s = Average (map rvalue ?r)
      \<and> s_variance s =
          (if 1 < length ?r
           then sum_list (map (\<lambda>v. (v - Average (map rvalue ?r)) ^ 2) (map rvalue ?r))
                  / (real (length ?r) - 1)
           else 0)"
    if "s \<in> set (AnalyzeScenario scenarioItems responses)" "s_itemId s = ?c" for s
    using that
    by (auto simp: in_AnalyzeScenario optionSummary_fields dest: prefix_SC_transfer)
  show "let compositeId = si_id item @ ''|'' @ opt_key option;
           records = filter (\<lambda>r. itemId r = compositeId) responses
       in (records \<noteq> [] \<and> prefix ''SC-'' (si_id item) \<longrightarrow>
             (\<exists>s\<in>set (AnalyzeScenario scenarioItems responses). s_itemId s = compositeId))
          \<and> (\<forall>s\<in>set (AnalyzeScenario scenarioItems responses).
               s_itemId s = compositeId \<longrightarrow>
                 prefix ''SC-'' (si_id item)
                 \<and> records \<noteq> []
                 \<and> s_mean s = Average (map rvalue records)
                 \<and> s_variance s =
                     (if 1 < length records
                      then sum_list (map (\<lambda>v. (v - Average (map rvalue records)) ^ 2)
                                      (map rvalue records))
                             / (real (length records) - 1)
                      else 0))"
    unfolding Let_def using ex st by blast
qed

theorem option_statistics_over_composite_id_witness:
  "(\<exists>s\<in>set (AnalyzeForcedChoice
        [\<lparr>fi_id = ''FC-01'', fi_required = True,
           fi_options = [\<lparr>opt_key = ''A'',
             opt_primary = \<lparr>wc_axis = ''activity'', wc_category = ''c1'', wc_score = 1, wc_weight = 1\<rparr>,
             opt_secondary = []\<rparr>]\<rparr>]
        [\<lparr>respondentId = ''r1'', itemId = ''FC-01|A'', rvalue = 1, responseTimeMs = None,
           confidence = None\<rparr>,
         \<lparr>respondentId = ''r2'', itemId = ''FC-01|A'', rvalue = - 1, responseTimeMs = None,
           confidence = None\<rparr>,
         \<lparr>respondentId = ''r1'', itemId = ''SC-01|A'', rvalue = 3, responseTimeMs = None,
           confidence = None\<rparr>]).
      s_itemId s = ''FC-01|A'' \<and> s_mean s = 0 \<and> s_variance s = 2)
   \<and> (\<exists>s\<in>set (AnalyzeScenario
        [\<lparr>si_id = ''SC-01'', si_required = True,
           si_options = [\<lparr>opt_key = ''A'',
             opt_primary = \<lparr>wc_axis = ''activity'', wc_category = ''c1'', wc_score = 1, wc_weight = 1\<rparr>,
             opt_secondary = []\<rparr>]\<rparr>]
        [\<lparr>respondentId = ''r1'', itemId = ''FC-01|A'', rvalue = 1, responseTimeMs = None,
           confidence = None\<rparr>,
         \<lparr>respondentId = ''r2'', itemId = ''FC-01|A'', rvalue = - 1, responseTimeMs = None,
           confidence = None\<rparr>,
         \<lparr>respondentId = ''r1'', itemId = ''SC-01|A'', rvalue = 3, responseTimeMs = None,
           confidence = None\<rparr>]).
      s_itemId s = ''SC-01|A'' \<and> s_mean s = 3 \<and> s_variance s = 0)"
proof -
  let ?opt = "\<lparr>opt_key = ''A'',
             opt_primary = \<lparr>wc_axis = ''activity'', wc_category = ''c1'', wc_score = 1, wc_weight = 1\<rparr>,
             opt_secondary = []\<rparr>"
  let ?fc = "\<lparr>fi_id = ''FC-01'', fi_required = True, fi_options = [?opt]\<rparr>"
  let ?sc = "\<lparr>si_id = ''SC-01'', si_required = True, si_options = [?opt]\<rparr>"
  let ?rs = "[\<lparr>respondentId = ''r1'', itemId = ''FC-01|A'', rvalue = 1, responseTimeMs = None,
           confidence = None\<rparr>,
         \<lparr>respondentId = ''r2'', itemId = ''FC-01|A'', rvalue = - 1, responseTimeMs = None,
           confidence = None\<rparr>,
         \<lparr>respondentId = ''r1'', itemId = ''SC-01|A'', rvalue = 3, responseTimeMs = None,
           confidence = None\<rparr>]"
  note t = option_statistics_over_composite_id [of "[?fc]" ?rs "[?sc]"]
  have f: "(\<exists>s\<in>set (AnalyzeForcedChoice [?fc] ?rs). s_itemId s = ''FC-01|A'')
      \<and> (\<forall>s\<in>set (AnalyzeForcedChoice [?fc] ?rs). s_itemId s = ''FC-01|A'' \<longrightarrow>
            s_mean s = 0 \<and> s_variance s = 2)"
    using t [THEN conjunct1] by (simp add: Let_def Average_def power2_eq_square)
  have g: "(\<exists>s\<in>set (AnalyzeScenario [?sc] ?rs). s_itemId s = ''SC-01|A'')
      \<and> (\<forall>s\<in>set (AnalyzeScenario [?sc] ?rs). s_itemId s = ''SC-01|A'' \<longrightarrow>
            s_mean s = 3 \<and> s_variance s = 0)"
    using t [THEN conjunct2] by (simp add: Let_def Average_def)
  from f g show ?thesis by blast
qed

text \<open>
  The claim as stated fails for a scenario question named \<^verbatim>\<open>Q1\<close>: a record with the
  composite id exists and the scenario analysis reports nothing.
\<close>

theorem scenario_without_SC_prefix_counterexample:
  "filter (\<lambda>r. itemId r = ''Q1'' @ ''|'' @ ''A'')
     [\<lparr>respondentId = ''r1'', itemId = ''Q1|A'', rvalue = 3, responseTimeMs = None,
        confidence = None\<rparr>] \<noteq> []
   \<and> AnalyzeScenario
       [\<lparr>si_id = ''Q1'', si_required = True,
          si_options = [\<lparr>opt_key = ''A'',
             opt_primary = \<lparr>wc_axis = ''activity'', wc_category = ''c1'', wc_score = 1, wc_weight = 1\<rparr>,
             opt_secondary = []\<rparr>]\<rparr>]
       [\<lparr>respondentId = ''r1'', itemId = ''Q1|A'', rvalue = 3, responseTimeMs = None,
          confidence = None\<rparr>] = []"
  by (simp add: AnalyzeScenario_eq Let_def)

section \<open>Weight applier\<close>

lemma applySummary_within_tolerance:
  assumes "locateOption itemsArray (s_itemId s) = Inr (Some (i, itemNode, optionsArray, j, optionNode, primary))"
    and "currentWeightOf primary = Inr cw"
    and "\<bar>cw - recommendedWeight s\<bar> < t"
  shows "applySummary t (itemsArray, n) s = Inr (itemsArray, n)"
  using assms by (simp add: applySummary_def)

lemma applySummary_change:
  assumes "applySummary t (itemsArray, n) s = Inr (itemsArray', n')"
    and "itemsArray' \<noteq> itemsArray \<or> n' \<noteq> n"
  shows "\<exists>i itemNode optionsArray j optionNode primary cw.
      locateOption itemsArray (s_itemId s) = Inr (Some (i, itemNode, optionsArray, j, optionNode, primary))
      \<and> currentWeightOf primary = Inr cw
      \<and> t \<le> \<bar>cw - recommendedWeight s\<bar>
      \<and> itemsArray' = setWeight itemsArray (i, itemNode, optionsArray, j, optionNode, primary)
                          (recommendedWeight s)
      \<and> n' = n + 1"
  using assms
  by (auto simp: applySummary_def split: sum.splits option.splits if_splits)

lemma applySummaries_within_tolerance:
  assumes "\<forall>s\<in>set summaries. \<exists>i itemNode optionsArray j optionNode primary cw.
      locateOption itemsArray (s_itemId s) = Inr (Some (i, itemNode, optionsArray, j, optionNode, primary))
      \<and> currentWeightOf primary = Inr cw \<and> \<bar>cw - recommendedWeight s\<bar> < t"
  shows "applySummaries t (itemsArray, n) summaries = Inr (itemsArray, n)"
  using assms
proof (induction summaries)
  case Nil
  then show ?case by simp
next
  case (Cons s rest)
  then obtain i itemNode optionsArray j optionNode primary cw where
    "locateOption itemsArray (s_itemId s) = Inr (Some (i, itemNode, optionsArray, j, optionNode, primary))"
    "currentWeightOf primary = Inr cw" "\<bar>cw - recommendedWeight s\<bar> < t"
    by (metis list.set_intros(1))
  then have "applySummary t (itemsArray, n) s = Inr (itemsArray, n)"
    by (rule applySummary_within_tolerance)
  with Cons show ?case by simp
qed

text \<open>
  Claim C7. When the summary addresses an option of the items array whose primary weight
  (1 when the property is absent) differs from the recommended weight by less than the
  tolerance, the loop body leaves the array and the counter as they are; whenever the
  loop body changes the array or the counter, the addressed weight differed by at least
  the tolerance, the weight is set to the recommendation and the counter grows by one. A
  run over summaries that are all within the tolerance changes nothing. With the
  tolerance 0.05 (the default of the argument parser), the weight 1.0 and the
  recommendation 1.03 the file keeps its content and the count is 0; with the
  recommendation 1.10 the weight becomes 1.10 and the count is 1.
\<close>

theorem tolerance_gating:
  "(locateOption itemsArray (s_itemId s)
        = Inr (Some (i, itemNode, optionsArray, j, optionNode, primary))
      \<and> currentWeightOf primary = Inr cw \<and> \<bar>cw - recommendedWeight s\<bar> < t
      \<longrightarrow> applySummary t (itemsArray, n) s = Inr (itemsArray, n))
   \<and> (applySummary t (itemsArray, n) s = Inr (itemsArray', n')
        \<and> (itemsArray' \<noteq> itemsArray \<or> n' \<noteq> n)
      \<longrightarrow> (\<exists>i itemNode optionsArray j optionNode primary cw.
             locateOption itemsArray (s_itemId s)
               = Inr (Some (i, itemNode, optionsArray, j, optionNode, primary))
             \<and> currentWeightOf primary = Inr cw
             \<and> t \<le> \<bar>cw - recommendedWeight s\<bar>
             \<and> itemsArray' = setWeight itemsArray (i, itemNode, optionsArray, j, optionNode, primary)
                                 (recommendedWeight s)
             \<and> n' = n + 1))
   \<and> ((\<forall>s\<in>set summaries. \<exists>i itemNode optionsArray j optionNode primary cw.
           locateOption itemsArray (s_itemId s)
             = Inr (Some (i, itemNode, optionsArray, j, optionNode, primary))
           \<and> currentWeightOf primary = Inr cw \<and> \<bar>cw - recommendedWeight s\<bar> < t)
      \<longrightarrow> applySummaries t (itemsArray, n) summaries = Inr (itemsArray, n))
   \<and> ApplyToFile
       (Some (JObject [(''items'', JArray
        [JObject [(''id'', JString ''FC-01''),
                  (''options'', JArray
                     [JObject [(''key'', JString ''A''),
                               (''primary'', JObject [(''category'', JString ''c1''),
                                                      (''weight'', JNumber 1)])]])]])]))
       [\<lparr>s_itemId = ''FC-01|A'', s_axis = ''activity'', s_category = ''c1'', s_mean = 0,
        s_variance = 0, effectiveWeight = 1, recommendedWeight = 103 / 100,
        itemTotalCorrelation = None, averageResponseTimeMs = None, averageConfidence = None\<rparr>]
       (5 / 100)
     = Inr (Some (JObject [(''items'', JArray
        [JObject [(''id'', JString ''FC-01''),
                  (''options'', JArray
                     [JObject [(''key'', JString ''A''),
                               (''primary'', JObject [(''category'', JString ''c1''),
                                                      (''weight'', JNumber 1)])]])]])]), 0)
   \<and> ApplyToFile
       (Some (JObject [(''items'', JArray
        [JObject [(''id'', JString ''FC-01''),
                  (''options'', JArray
                     [JObject [(''key'', JString ''A''),
                               (''primary'', JObject [(''category'', JString ''c1''),
                                                      (''weight'', JNumber 1)])]])]])]))
       [\<lparr>s_itemId = ''FC-01|A'', s_axis = ''activity'', s_category = ''c1'', s_mean = 0,
        s_variance = 0, effectiveWeight = 1, recommendedWeight = 110 / 100,
        itemTotalCorrelation = None, averageResponseTimeMs = None, averageConfidence = None\<rparr>]
       (5 / 100)
     = Inr (Some (JObject [(''items'', JArray
        [JObject [(''id'', JString ''FC-01''),
                  (''options'', JArray
                     [JObject [(''key'', JString ''A''),
                               (''primary'', JObject [(''category'', JString ''c1''),
                                                      (''weight'', JNumber (110 / 100))])]])]])]), 1)"
proof (intro conjI impI)
  assume "locateOption itemsArray (s_itemId s)
        = Inr (Some (i, itemNode, optionsArray, j, optionNode, primary))
      \<and> currentWeightOf primary = Inr cw \<and> \<bar>cw - recommendedWeight s\<bar> < t"
  then show "applySummary t (itemsArray, n) s = Inr (itemsArray, n)"
    using applySummary_within_tolerance by blast
next
  assume "applySummary t (itemsArray, n) s = Inr (itemsArray', n')
        \<and> (itemsArray' \<noteq> itemsArray \<or> n' \<noteq> n)"
  then show "\<exists>i itemNode optionsArray j optionNode primary cw.
             locateOption itemsArray (s_itemId s)
               = Inr (Some (i, itemNode, optionsArray, j, optionNode, primary))
             \<and> currentWeightOf primary = Inr cw
             \<and> t \<le> \<bar>cw - recommendedWeight s\<bar>
             \<and> itemsArray' = setWeight itemsArray (i, itemNode, optionsArray, j, optionNode, primary)
                                 (recommendedWeight s)
             \<and> n' = n + 1"
    using applySummary_change [of t itemsArray n s itemsArray' n'] by blast
next
  assume "\<forall>s\<in>set summaries. \<exists>i itemNode optionsArray j optionNode primary cw.
           locateOption itemsArray (s_itemId s)
             = Inr (Some (i, itemNode, optionsArray, j, optionNode, primary))
           \<and> currentWeightOf primary = Inr cw \<and> \<bar>cw - recommendedWeight s\<bar> < t"
  then show "applySummaries t (itemsArray, n) summaries = Inr (itemsArray, n)"
    by (rule applySummaries_within_tolerance)
next
  show "ApplyToFile
       (Some (JObject [(''items'', JArray
        [JObject [(''id'', JString ''FC-01''),
                  (''options'', JArray
                     [JObject [(''key'', JString ''A''),
                               (''primary'', JObject [(''category'', JString ''c1''),
                                                      (''weight'', JNumber 1)])]])]])]))
       [\<lparr>s_itemId = ''FC-01|A'', s_axis = ''activity'', s_category = ''c1'', s_mean = 0,
        s_variance = 0, effectiveWeight = 1, recommendedWeight = 103 / 100,
        itemTotalCorrelation = None, averageResponseTimeMs = None, averageConfidence = None\<rparr>]
       (5 / 100)
     = Inr (Some (JObject [(''items'', JArray
        [JObject [(''id'', JString ''FC-01''),
                  (''options'', JArray
                     [JObject [(''key'', JString ''A''),
                               (''primary'', JObject [(''category'', JString ''c1''),
                                                      (''weight'', JNumber 1)])]])]])]), 0)"
    by (simp add: ApplyToFile_def applySummary_def locateOption_def currentWeightOf_def
        setWeight_def)
next
  show "ApplyToFile
       (Some (JObject [(''items'', JArray
        [JObject [(''id'', JString ''FC-01''),
                  (''options'', JArray
                     [JObject [(''key'', JString ''A''),
                               (''primary'', JObject [(''category'', JString ''c1''),
                                                      (''weight'', JNumber 1)])]])]])]))
       [\<lparr>s_itemId = ''FC-01|A'', s_axis = ''activity'', s_category = ''c1'', s_mean = 0,
        s_variance = 0, effectiveWeight = 1, recommendedWeight = 110 / 100,
        itemTotalCorrelation = None, averageResponseTimeMs = None, averageConfidence = None\<rparr>]
       (5 / 100)
     = Inr (Some (JObject [(''items'', JArray
        [JObject [(''id'', JString ''FC-01''),
                  (''options'', JArray
                     [JObject [(''key'', JString ''A''),
                               (''primary'', JObject [(''category'', JString ''c1''),
                                                      (''weight'', JNumber (110 / 100))])]])]])]), 1)"
    by (simp add: ApplyToFile_def applySummary_def locateOption_def currentWeightOf_def
        setWeight_def)
qed

theorem tolerance_gating_witness:
  "applySummary (5 / 100) ([JObject [(''id'', JString ''FC-01''),
                  (''options'', JArray
                     [JObject [(''key'', JString ''A''),
                               (''primary'', JObject [(''category'', JString ''c1''),
                                                      (''weight'', JNumber 1)])]])]], 7) \<lparr>s_itemId = ''FC-01|A'', s_axis = ''activity'', s_category = ''c1'', s_mean = 0,
        s_variance = 0, effectiveWeight = 1, recommendedWeight = 103 / 100,
        itemTotalCorrelation = None, averageResponseTimeMs = None, averageConfidence = None\<rparr> = Inr ([JObject [(''id'', JString ''FC-01''),
                  (''options'', JArray
                     [JObject [(''key'', JString ''A''),
                               (''primary'', JObject [(''category'', JString ''c1''),
                                                      (''weight'', JNumber 1)])]])]], 7)
   \<and> applySummaries (5 / 100) ([JObject [(''id'', JString ''FC-01''),
                  (''options'', JArray
                     [JObject [(''key'', JString ''A''),
                               (''primary'', JObject [(''category'', JString ''c1''),
                                                      (''weight'', JNumber 1)])]])]], 7) [\<lparr>s_itemId = ''FC-01|A'', s_axis = ''activity'', s_category = ''c1'', s_mean = 0,
        s_variance = 0, effectiveWeight = 1, recommendedWeight = 103 / 100,
        itemTotalCorrelation = None, averageResponseTimeMs = None, averageConfidence = None\<rparr>, \<lparr>s_itemId = ''FC-01|A'', s_axis = ''activity'', s_category = ''c1'', s_mean = 0,
        s_variance = 0, effectiveWeight = 1, recommendedWeight = 98 / 100,
        itemTotalCorrelation = None, averageResponseTimeMs = None, averageConfidence = None\<rparr>] = Inr ([JObject [(''id'', JString ''FC-01''),
                  (''options'', JArray
                     [JObject [(''key'', JString ''A''),
                               (''primary'', JObject [(''category'', JString ''c1''),
                                                      (''weight'', JNumber 1)])]])]], 7)"
proof -
  let ?items = "[JObject [(''id'', JString ''FC-01''),
                  (''options'', JArray
                     [JObject [(''key'', JString ''A''),
                               (''primary'', JObject [(''category'', JString ''c1''),
                                                      (''weight'', JNumber 1)])]])]]"
  let ?prim = "[(''category'', JString ''c1''), (''weight'', JNumber 1)]"
  let ?opt = "[(''key'', JString ''A''), (''primary'', JObject ?prim)]"
  let ?item = "[(''id'', JString ''FC-01''), (''options'', JArray [JObject ?opt])]"
  let ?s103 = "\<lparr>s_itemId = ''FC-01|A'', s_axis = ''activity'', s_category = ''c1'', s_mean = 0,
        s_variance = 0, effectiveWeight = 1, recommendedWeight = 103 / 100,
        itemTotalCorrelation = None, averageResponseTimeMs = None, averageConfidence = None\<rparr>"
  let ?s98 = "\<lparr>s_itemId = ''FC-01|A'', s_axis = ''activity'', s_category = ''c1'', s_mean = 0,
        s_variance = 0, effectiveWeight = 1, recommendedWeight = 98 / 100,
        itemTotalCorrelation = None, averageResponseTimeMs = None, averageConfidence = None\<rparr>"
  have l: "locateOption ?items ''FC-01|A'' = Inr (Some (0, ?item, [JObject ?opt], 0, ?opt, ?prim))"
    by (simp add: locateOption_def)
  have w: "currentWeightOf ?prim = Inr 1"
    by (simp add: currentWeightOf_def)
  have a: "applySummary (5 / 100) (?items, 7) ?s103 = Inr (?items, 7)"
    using tolerance_gating
      [where itemsArray = ?items and s = ?s103 and i = 0 and itemNode = ?item
         and optionsArray = "[JObject ?opt]" and j = 0 and optionNode = ?opt and primary = ?prim
         and cw = 1 and t = "5 / 100" and n = 7, THEN conjunct1]
      l w by simp
  have b: "applySummaries (5 / 100) (?items, 7) [?s103, ?s98] = Inr (?items, 7)"
  proof -
    have "\<forall>s\<in>set [?s103, ?s98]. \<exists>i itemNode optionsArray j optionNode primary cw.
           locateOption ?items (s_itemId s)
             = Inr (Some (i, itemNode, optionsArray, j, optionNode, primary))
           \<and> currentWeightOf primary = Inr cw \<and> \<bar>cw - recommendedWeight s\<bar> < 5 / 100"
      using l w by auto
    then show ?thesis
      using tolerance_gating
        [where itemsArray = ?items and summaries = "[?s103, ?s98]" and t = "5 / 100" and n = 7,
           THEN conjunct2, THEN conjunct2, THEN conjunct1]
      by blast
  qed
  from a b show ?thesis by blast
qed

section \<open>Response aggregator\<close>

subsection \<open>Rank weights\<close>

text \<open>
  Claim C1, evaluated on the code. A scenario question with four options, of which the
  first and the fourth (\<open>A\<close> and \<open>D\<close>) share the category \<open>a\<close> and the tag \<open>t\<close>. With the
  ranking \<open>A, B, C\<close> the ranks 0, 1, 2 count with the weights 1, 0.5 and 0.25. With the
  ranking \<open>A, B, C, D\<close> the claim gives the option at rank 3 the contribution zero, so
  the scores would be the same; the code reads \<^verbatim>\<open>weights[3]\<close>, which is
  \<^verbatim>\<open>undefined\<close>, and adds the product \<^verbatim>\<open>NaN\<close>: the category score, the aptitude score
  and the tag score that the option touches are \<^verbatim>\<open>NaN\<close>.
\<close>

theorem rank_beyond_three_poisons_scores:
  "rankWeightAt 0 = Num 1 \<and> rankWeightAt 1 = Num (1 / 2) \<and> rankWeightAt 2 = Num (1 / 4)
   \<and> rankWeightAt 3 = NaN
   \<and> categoryScore (Some \<lparr>likert = [], forcedChoice = [],
       scenario = [\<lparr>sq_id = ''S1'', sq_required = True, sq_options =
         [\<lparr>co_key = ''A'',
            co_primary = \<lparr>wc_axis = ''activity'', wc_category = ''a'', wc_score = 4, wc_weight = 1\<rparr>,
            co_secondary = None, co_tags = Some [\<lparr>tag_name = ''t'', tag_weight = 1\<rparr>]\<rparr>,
          \<lparr>co_key = ''B'',
            co_primary = \<lparr>wc_axis = ''activity'', wc_category = ''b'', wc_score = 3, wc_weight = 1\<rparr>,
            co_secondary = None, co_tags = None\<rparr>,
          \<lparr>co_key = ''C'',
            co_primary = \<lparr>wc_axis = ''activity'', wc_category = ''c'', wc_score = 2, wc_weight = 1\<rparr>,
            co_secondary = None, co_tags = None\<rparr>,
          \<lparr>co_key = ''D'',
            co_primary = \<lparr>wc_axis = ''activity'', wc_category = ''a'', wc_score = 1, wc_weight = 1\<rparr>,
            co_secondary = None, co_tags = Some [\<lparr>tag_name = ''t'', tag_weight = 1\<rparr>]\<rparr>]\<rparr>]\<rparr>) [] [] [(''S1'', \<lparr>rankedOptions = [''A'', ''B'', ''C'']\<rparr>)]
       = [(''a'', Num 4), (''b'', Num (3 / 2)), (''c'', Num (1 / 2))]
   \<and> categoryScore (Some \<lparr>likert = [], forcedChoice = [],
       scenario = [\<lparr>sq_id = ''S1'', sq_required = True, sq_options =
         [\<lparr>co_key = ''A'',
            co_primary = \<lparr>wc_axis = ''activity'', wc_category = ''a'', wc_score = 4, wc_weight = 1\<rparr>,
            co_secondary = None, co_tags = Some [\<lparr>tag_name = ''t'', tag_weight = 1\<rparr>]\<rparr>,
          \<lparr>co_key = ''B'',
            co_primary = \<lparr>wc_axis = ''activity'', wc_category = ''b'', wc_score = 3, wc_weight = 1\<rparr>,
            co_secondary = None, co_tags = None\<rparr>,
          \<lparr>co_key = ''C'',
            co_primary = \<lparr>wc_axis = ''activity'', wc_category = ''c'', wc_score = 2, wc_weight = 1\<rparr>,
            co_secondary = None, co_tags = None\<rparr>,
          \<lparr>co_key = ''D'',
            co_primary = \<lparr>wc_axis = ''activity'', wc_category = ''a'', wc_score = 1, wc_weight = 1\<rparr>,
            co_secondary = None, co_tags = Some [\<lparr>tag_name = ''t'', tag_weight = 1\<rparr>]\<rparr>]\<rparr>]\<rparr>) [] [] [(''S1'', \<lparr>rankedOptions = [''A'', ''B'', ''C'', ''D'']\<rparr>)]
       = [(''a'', NaN), (''b'', Num (3 / 2)), (''c'', Num (1 / 2))]
   \<and> aptitudeScores (Some \<lparr>likert = [], forcedChoice = [],
       scenario = [\<lparr>sq_id = ''S1'', sq_required = True, sq_options =
         [\<lparr>co_key = ''A'',
            co_primary = \<lparr>wc_axis = ''activity'', wc_category = ''a'', wc_score = 4, wc_weight = 1\<rparr>,
            co_secondary = None, co_tags = Some [\<lparr>tag_name = ''t'', tag_weight = 1\<rparr>]\<rparr>,
          \<lparr>co_key = ''B'',
            co_primary = \<lparr>wc_axis = ''activity'', wc_category = ''b'', wc_score = 3, wc_weight = 1\<rparr>,
            co_secondary = None, co_tags = None\<rparr>,
          \<lparr>co_key = ''C'',
            co_primary = \<lparr>wc_axis = ''activity'', wc_category = ''c'', wc_score = 2, wc_weight = 1\<rparr>,
            co_secondary = None, co_tags = None\<rparr>,
          \<lparr>co_key = ''D'',
            co_primary = \<lparr>wc_axis = ''activity'', wc_category = ''a'', wc_score = 1, wc_weight = 1\<rparr>,
            co_secondary = None, co_tags = Some [\<lparr>tag_name = ''t'', tag_weight = 1\<rparr>]\<rparr>]\<rparr>]\<rparr>) [] [] [(''S1'', \<lparr>rankedOptions = [''A'', ''B'', ''C'', ''D'']\<rparr>)]
       = [(''a'', NaN), (''b'', Num (3 / 2)), (''c'', Num (1 / 2))]
   \<and> tagScores (Some \<lparr>likert = [], forcedChoice = [],
       scenario = [\<lparr>sq_id = ''S1'', sq_required = True, sq_options =
         [\<lparr>co_key = ''A'',
            co_primary = \<lparr>wc_axis = ''activity'', wc_category = ''a'', wc_score = 4, wc_weight = 1\<rparr>,
            co_secondary = None, co_tags = Some [\<lparr>tag_name = ''t'', tag_weight = 1\<rparr>]\<rparr>,
          \<lparr>co_key = ''B'',
            co_primary = \<lparr>wc_axis = ''activity'', wc_category = ''b'', wc_score = 3, wc_weight = 1\<rparr>,
            co_secondary = None, co_tags = None\<rparr>,
          \<lparr>co_key = ''C'',
            co_primary = \<lparr>wc_axis = ''activity'', wc_category = ''c'', wc_score = 2, wc_weight = 1\<rparr>,
            co_secondary = None, co_tags = None\<rparr>,
          \<lparr>co_key = ''D'',
            co_primary = \<lparr>wc_axis = ''activity'', wc_category = ''a'', wc_score = 1, wc_weight = 1\<rparr>,
            co_secondary = None, co_tags = Some [\<lparr>tag_name = ''t'', tag_weight = 1\<rparr>]\<rparr>]\<rparr>]\<rparr>) [] [] [(''S1'', \<lparr>rankedOptions = [''A'', ''B'', ''C'']\<rparr>)]
       = [(''t'', \<lparr>te_score = Num 4, te_questions = [''S1'']\<rparr>)]
   \<and> tagScores (Some \<lparr>likert = [], forcedChoice = [],
       scenario = [\<lparr>sq_id = ''S1'', sq_required = True, sq_options =
         [\<lparr>co_key = ''A'',
            co_primary = \<lparr>wc_axis = ''activity'', wc_category = ''a'', wc_score = 4, wc_weight = 1\<rparr>,
            co_secondary = None, co_tags = Some [\<lparr>tag_name = ''t'', tag_weight = 1\<rparr>]\<rparr>,
          \<lparr>co_key = ''B'',
            co_primary = \<lparr>wc_axis = ''activity'', wc_category = ''b'', wc_score = 3, wc_weight = 1\<rparr>,
            co_secondary = None, co_tags = None\<rparr>,
          \<lparr>co_key = ''C'',
            co_primary = \<lparr>wc_axis = ''activity'', wc_category = ''c'', wc_score = 2, wc_weight = 1\<rparr>,
            co_secondary = None, co_tags = None\<rparr>,
          \<lparr>co_key = ''D'',
            co_primary = \<lparr>wc_axis = ''activity'', wc_category = ''a'', wc_score = 1, wc_weight = 1\<rparr>,
            co_secondary = None, co_tags = Some [\<lparr>tag_name = ''t'', tag_weight = 1\<rparr>]\<rparr>]\<rparr>]\<rparr>) [] [] [(''S1'', \<lparr>rankedOptions = [''A'', ''B'', ''C'', ''D'']\<rparr>)]
       = [(''t'', \<lparr>te_score = NaN, te_questions = [''S1'']\<rparr>)]"
  by (simp add: categoryScore_def aptitudeScores_def tagScores_def accumulate_def tagAccumulate_def
      scenarioStep_def scenarioTagStep_def likertTagStep_def addScore_def addTagScore_def
      rankWeightAt_def isAptitudeAxis_def SortCompare_def enumerate_eq_zip Let_def)

subsection \<open>Tag scores\<close>

text \<open>
  Claim C10, evaluated on the code. The same defect as in claim C1 breaks the order of the
  tag scores. With the ranking \<open>A, B, C\<close> the tags come out as \<open>n\<close> (4), \<open>q\<close> (2), \<open>p\<close> (1).
  With the ranking \<open>A, B, C, D\<close> the score of \<open>n\<close> is \<^verbatim>\<open>NaN\<close>, every comparison with it
  is \<^verbatim>\<open>NaN\<close> and counts as equal, and the output keeps the order of insertion: \<open>p\<close> with
  score 1 stands before \<open>q\<close> with score 2.
\<close>

theorem tagScores_order_lost_with_four_ranks:
  "tagScores (Some \<lparr>likert = [\<lparr>lq_id = ''L1'', lq_axis = ''activity'', primaryCategory = ''a'', polarity = positive,
          lq_required = True, relatedCategories = None,
          lq_tags = Some [\<lparr>tag_name = ''p'', tag_weight = 1\<rparr>]\<rparr>],
       forcedChoice = [],
       scenario = [\<lparr>sq_id = ''S1'', sq_required = True, sq_options =
         [\<lparr>co_key = ''A'',
            co_primary = \<lparr>wc_axis = ''activity'', wc_category = ''a'', wc_score = 4, wc_weight = 1\<rparr>,
            co_secondary = None, co_tags = Some [\<lparr>tag_name = ''n'', tag_weight = 1\<rparr>]\<rparr>,
          \<lparr>co_key = ''B'',
            co_primary = \<lparr>wc_axis = ''activity'', wc_category = ''b'', wc_score = 4, wc_weight = 1\<rparr>,
            co_secondary = None, co_tags = Some [\<lparr>tag_name = ''q'', tag_weight = 1\<rparr>]\<rparr>,
          \<lparr>co_key = ''C'',
            co_primary = \<lparr>wc_axis = ''activity'', wc_category = ''c'', wc_score = 2, wc_weight = 1\<rparr>,
            co_secondary = None, co_tags = None\<rparr>,
          \<lparr>co_key = ''D'',
            co_primary = \<lparr>wc_axis = ''activity'', wc_category = ''d'', wc_score = 1, wc_weight = 1\<rparr>,
            co_secondary = None, co_tags = Some [\<lparr>tag_name = ''n'', tag_weight = 1\<rparr>]\<rparr>]\<rparr>]\<rparr>) [(''L1'', 1)] [] [(''S1'', \<lparr>rankedOptions = [''A'', ''B'', ''C'']\<rparr>)]
     = [(''n'', \<lparr>te_score = Num 4, te_questions = [''S1'']\<rparr>),
        (''q'', \<lparr>te_score = Num 2, te_questions = [''S1'']\<rparr>),
        (''p'', \<lparr>te_score = Num 1, te_questions = [''L1'']\<rparr>)]
   \<and> tagScores (Some \<lparr>likert = [\<lparr>lq_id = ''L1'', lq_axis = ''activity'', primaryCategory = ''a'', polarity = positive,
          lq_required = True, relatedCategories = None,
          lq_tags = Some [\<lparr>tag_name = ''p'', tag_weight = 1\<rparr>]\<rparr>],
       forcedChoice = [],
       scenario = [\<lparr>sq_id = ''S1'', sq_required = True, sq_options =
         [\<lparr>co_key = ''A'',
            co_primary = \<lparr>wc_axis = ''activity'', wc_category = ''a'', wc_score = 4, wc_weight = 1\<rparr>,
            co_secondary = None, co_tags = Some [\<lparr>tag_name = ''n'', tag_weight = 1\<rparr>]\<rparr>,
          \<lparr>co_key = ''B'',
            co_primary = \<lparr>wc_axis = ''activity'', wc_category = ''b'', wc_score = 4, wc_weight = 1\<rparr>,
            co_secondary = None, co_tags = Some [\<lparr>tag_name = ''q'', tag_weight = 1\<rparr>]\<rparr>,
          \<lparr>co_key = ''C'',
            co_primary = \<lparr>wc_axis = ''activity'', wc_category = ''c'', wc_score = 2, wc_weight = 1\<rparr>,
            co_secondary = None, co_tags = None\<rparr>,
          \<lparr>co_key = ''D'',
            co_primary = \<lparr>wc_axis = ''activity'', wc_category = ''d'', wc_score = 1, wc_weight = 1\<rparr>,
            co_secondary = None, co_tags = Some [\<lparr>tag_name = ''n'', tag_weight = 1\<rparr>]\<rparr>]\<rparr>]\<rparr>) [(''L1'', 1)] [] [(''S1'', \<lparr>rankedOptions = [''A'', ''B'', ''C'', ''D'']\<rparr>)]
     = [(''p'', \<lparr>te_score = Num 1, te_questions = [''L1'']\<rparr>),
        (''n'', \<lparr>te_score = NaN, te_questions = [''S1'']\<rparr>),
        (''q'', \<lparr>te_score = Num 2, te_questions = [''S1'']\<rparr>)]"
  by (simp add: tagScores_def tagAccumulate_def scenarioTagStep_def likertTagStep_def
      addTagScore_def rankWeightAt_def SortCompare_def enumerate_eq_zip Let_def)

text \<open>
  What the defect leaves intact: the output never has more than ten entries, no entry
  lists a question id twice, and the order is descending whenever every accumulated score
  is a number.
\<close>

lemma in_set_update:
  "p \<in> set (AList.update k v al) \<Longrightarrow> p \<in> set al \<or> p = (k, v)"
  by (induction al) (auto split: if_splits)

lemma tagScores_at_most_ten:
  "length (tagScores questionBank likertAnswers forcedAnswers scenarioAnswers) \<le> 10"
  by (simp add: tagScores_def)

lemma sorted_insort_cmp_numeric:
  assumes "\<forall>y\<in>set (x # ys). \<exists>r. key y = Num r"
    and "sorted_wrt (\<lambda>a b. \<forall>ra rb. key a = Num ra \<longrightarrow> key b = Num rb \<longrightarrow> rb \<le> ra) ys"
  shows "sorted_wrt (\<lambda>a b. \<forall>ra rb. key a = Num ra \<longrightarrow> key b = Num rb \<longrightarrow> rb \<le> ra)
           (insort_cmp (\<lambda>a b. jsub (key b) (key a)) x ys)"
  using assms
proof (induction ys)
  case Nil
  then show ?case by simp
next
  case (Cons y ys)
  from Cons.prems(1) obtain rx ry where k: "key x = Num rx" "key y = Num ry" by auto
  show ?case
  proof (cases "ry \<le> rx")
    case True
    have "\<forall>z\<in>set ys. \<forall>rz. key z = Num rz \<longrightarrow> rz \<le> rx"
      using Cons.prems(2) k True by fastforce
    with True k Cons.prems(2) show ?thesis
      by (auto simp: SortCompare_def)
  next
    case False
    have ih: "sorted_wrt (\<lambda>a b. \<forall>ra rb. key a = Num ra \<longrightarrow> key b = Num rb \<longrightarrow> rb \<le> ra)
           (insort_cmp (\<lambda>a b. jsub (key b) (key a)) x ys)"
      using Cons.IH Cons.prems by simp
    with False k Cons.prems(2) show ?thesis
      by (auto simp: SortCompare_def set_insort_cmp)
  qed
qed

lemma sorted_js_sort_numeric:
  assumes "\<forall>y\<in>set xs. \<exists>r. key y = Num r"
  shows "sorted_wrt (\<lambda>a b. \<forall>ra rb. key a = Num ra \<longrightarrow> key b = Num rb \<longrightarrow> rb \<le> ra)
           (js_sort (\<lambda>a b. jsub (key b) (key a)) xs)"
  using assms
proof (induction xs)
  case Nil
  then show ?case by simp
next
  case (Cons x xs)
  have "sorted_wrt (\<lambda>a b. \<forall>ra rb. key a = Num ra \<longrightarrow> key b = Num rb \<longrightarrow> rb \<le> ra)
           (insort_cmp (\<lambda>a b. jsub (key b) (key a)) x (js_sort (\<lambda>a b. jsub (key b) (key a)) xs))"
    by (rule sorted_insort_cmp_numeric) (use Cons in \<open>auto simp: set_js_sort\<close>)
  then show ?case by simp
qed

lemma tagScores_sorted_when_numeric:
  assumes "\<forall>e\<in>set (tagAccumulate questionBank likertAnswers forcedAnswers scenarioAnswers).
             \<exists>r. te_score (snd e) = Num r"
  shows "sorted_wrt (\<lambda>a b. \<forall>ra rb. te_score (snd a) = Num ra \<longrightarrow> te_score (snd b) = Num rb \<longrightarrow> rb \<le> ra)
           (tagScores questionBank likertAnswers forcedAnswers scenarioAnswers)"
  unfolding tagScores_def
  by (rule sorted_wrt_take) (rule sorted_js_sort_numeric [where key = "\<lambda>e. te_score (snd e)", OF assms])

lemma addTagScore_distinct:
  assumes "\<forall>e\<in>set scores. distinct (te_questions (snd e))"
  shows "\<forall>e\<in>set (addTagScore key v questionId scores). distinct (te_questions (snd e))"
proof
  fix e assume e: "e \<in> set (addTagScore key v questionId scores)"
  define old where "old = (case map_of scores key of
                     None \<Rightarrow> \<lparr>te_score = Num 0, te_questions = []\<rparr>
                   | Some e \<Rightarrow> e)"
  have d: "distinct (te_questions old)"
  proof (cases "map_of scores key")
    case None
    then show ?thesis by (simp add: old_def)
  next
    case (Some x)
    then have "(key, x) \<in> set scores" by (rule map_of_SomeD)
    with assms have "distinct (te_questions (snd (key, x)))" by blast
    with Some show ?thesis by (simp add: old_def)
  qed
  from e have "e \<in> set scores \<or> e = (key, \<lparr>te_score = jadd (te_score old) v,
            te_questions = (if questionId \<in> set (te_questions old) then te_questions old
                            else te_questions old @ [questionId])\<rparr>)"
    unfolding addTagScore_def Let_def old_def by (rule in_set_update)
  then show "distinct (te_questions (snd e))"
    using assms d by auto
qed

lemma foldl_invariant:
  assumes "P s" and "\<And>s x. P s \<Longrightarrow> P (f s x)"
  shows "P (foldl f s xs)"
  using assms(1) by (induction xs arbitrary: s) (simp_all add: assms(2))

lemma tagAccumulate_distinct:
  "\<forall>e\<in>set (tagAccumulate questionBank likertAnswers forcedAnswers scenarioAnswers).
      distinct (te_questions (snd e))"
proof (cases questionBank)
  case None
  then show ?thesis by (simp add: tagAccumulate_def)
next
  case (Some bank)
  let ?P = "\<lambda>scores :: (string \<times> TagEntry) list. \<forall>e\<in>set scores. distinct (te_questions (snd e))"
  have tags: "?P (foldl (\<lambda>sc tag. addTagScore (n tag) (w tag) q sc) scores ts)"
    if "?P scores" for n w q scores and ts :: "Tag list"
    by (rule foldl_invariant [where P = ?P, OF that]) (rule addTagScore_distinct)
  have l: "?P (likertTagStep bank scores entry)" if "?P scores" for scores entry
  proof (cases entry)
    case (Pair qid v)
    show ?thesis
    proof (cases "find (\<lambda>q. lq_id q = qid) (likert bank)")
      case None
      with Pair that show ?thesis by (simp add: likertTagStep_def)
    next
      case (Some question)
      with Pair tags [OF that] show ?thesis by (simp add: likertTagStep_def Let_def)
    qed
  qed
  have f: "?P (forcedTagStep bank scores entry)" if "?P scores" for scores entry
  proof (cases entry)
    case (Pair key answer)
    define questionId where "questionId = (case Split CHR ''|'' key of [] \<Rightarrow> [] | p # _ \<Rightarrow> p)"
    show ?thesis
    proof (cases "optionKey answer = ''SKIP''")
      case True
      with Pair that show ?thesis by (simp add: forcedTagStep_def)
    next
      case False
      note skip = this
      show ?thesis
      proof (cases "find (\<lambda>q. fq_id q = questionId) (forcedChoice bank)")
        case None
        with Pair that skip show ?thesis
          by (simp add: forcedTagStep_def Let_def questionId_def)
      next
        case (Some question)
        note q = this
        show ?thesis
        proof (cases "find (\<lambda>opt. co_key opt = optionKey answer) (fq_options question)")
          case None
          with Pair that skip q show ?thesis
            by (simp add: forcedTagStep_def Let_def questionId_def)
        next
          case (Some opt)
          with Pair tags [OF that] skip q show ?thesis
            by (simp add: forcedTagStep_def Let_def questionId_def)
        qed
      qed
    qed
  qed
  have r: "?P (foldl (\<lambda>sc ranked. case ranked of (index, key) \<Rightarrow>
                (case find (\<lambda>opt. co_key opt = key) opts of
                   None \<Rightarrow> sc
                 | Some opt \<Rightarrow>
                     (let rankWeight = rankWeightAt index
                      in foldl (\<lambda>sc' tag.
                             addTagScore (tag_name tag)
                               (jmul (jmul (Num (wc_score (co_primary opt)
                                                 * wc_weight (co_primary opt))) rankWeight)
                                     (Num (tag_weight tag)))
                               qid sc')
                           sc
                           (case co_tags opt of None \<Rightarrow> [] | Some ts \<Rightarrow> ts)))) scores rs)"
    if "?P scores" for scores opts qid rs
  proof (rule foldl_invariant [where P = ?P, OF that])
    fix s :: "(string \<times> TagEntry) list" and x :: "nat \<times> string"
    assume ps: "?P s"
    obtain index key where x: "x = (index, key)" by (cases x)
    show "?P (case x of (index, key) \<Rightarrow>
                (case find (\<lambda>opt. co_key opt = key) opts of
                   None \<Rightarrow> s
                 | Some opt \<Rightarrow>
                     (let rankWeight = rankWeightAt index
                      in foldl (\<lambda>sc' tag.
                             addTagScore (tag_name tag)
                               (jmul (jmul (Num (wc_score (co_primary opt)
                                                 * wc_weight (co_primary opt))) rankWeight)
                                     (Num (tag_weight tag)))
                               qid sc')
                           s
                           (case co_tags opt of None \<Rightarrow> [] | Some ts \<Rightarrow> ts))))"
    proof (cases "find (\<lambda>opt. co_key opt = key) opts")
      case None
      with ps x show ?thesis by simp
    next
      case (Some opt)
      with tags [OF ps] x show ?thesis by (simp add: Let_def)
    qed
  qed
  have s: "?P (scenarioTagStep bank scores entry)" if "?P scores" for scores entry
  proof (cases entry)
    case (Pair qid answer)
    show ?thesis
    proof (cases "find (\<lambda>q. sq_id q = qid) (scenario bank)")
      case None
      with Pair that show ?thesis by (simp add: scenarioTagStep_def)
    next
      case (Some question)
      with Pair r [OF that] show ?thesis by (simp add: scenarioTagStep_def)
    qed
  qed
  have "?P (foldl (likertTagStep bank) [] likertAnswers)"
    by (rule foldl_invariant [where P = ?P]) (simp, rule l)
  then have "?P (foldl (forcedTagStep bank) (foldl (likertTagStep bank) [] likertAnswers) forcedAnswers)"
    by (rule foldl_invariant [where P = ?P]) (rule f)
  then have "?P (foldl (scenarioTagStep bank)
      (foldl (forcedTagStep bank) (foldl (likertTagStep bank) [] likertAnswers) forcedAnswers)
      scenarioAnswers)"
    by (rule foldl_invariant [where P = ?P]) (rule s)
  with Some show ?thesis by (simp add: tagAccumulate_def)
qed

lemma tagScores_questions_distinct:
  "\<forall>e\<in>set (tagScores questionBank likertAnswers forcedAnswers scenarioAnswers).
      distinct (te_questions (snd e))"
  using tagAccumulate_distinct [of questionBank likertAnswers forcedAnswers scenarioAnswers]
  unfolding tagScores_def
  by (auto dest!: in_set_takeD simp: set_js_sort)

subsection \<open>Category co-occurrence\<close>




















end
